theory Spec2Isabelle
  imports Complex_Main "HOL-Library.Word"
begin

section \<open>The model\<close>

text \<open>
  The two live panels of the audio tools (\<open>VoiceChat\<close> and \<open>VisualAssistant\<close>) are React
  components whose handlers mutate refs to browser and SDK objects. The objects live in an
  explicit store: one list per kind of object, an object's address being its index. A ref
  holds \<open>None\<close> for \<open>null\<close> and \<open>Some i\<close> for the object at index \<open>i\<close>.

  Every handler runs to its end before the next event is handled, except where it awaits
  the platform: \<open>startSession\<close> of the visual assistant is split at its
  \<open>await getUserMedia\<close>, and \<open>onopen\<close> of the voice chat, whose first statement is that
  await, is the step taken when it resolves. Where a handler calls code that can throw, the
  outcome is a parameter of the step. A step that can end with an exception returns the
  state it leaves together with the exception, since an exception undoes nothing.

  A state update of React with a value (\<open>setIsLive\<close>, \<open>setError\<close>,
  \<open>setTranscriptions([])\<close>) takes effect at the render that follows the handler. No
  handler reads a state it has set, so such an update is applied at the call. An update
  with an updater function is different: the function runs at that render.
\<close>

section \<open>Numbers\<close>

text \<open>
  A JavaScript number is an IEEE 754 double. The clock of an audio context and the duration
  of a buffer are finite doubles, given by the reals they denote. A sum is rounded to the
  nearest double, ties to even: \<open>binade\<close> is the exponent of the binade a real lies in
  (not below that of the subnormals), \<open>ulp\<close> the distance between neighbouring doubles
  there, with 53 bits of significand. A rounded sum of magnitude \<open>2 ^ 1024\<close> or more is an
  infinity.
\<close>

datatype number = Finite real | PosInf | NegInf

definition round_half_even :: "real \<Rightarrow> int" where
  "round_half_even x =
     (if x - of_int \<lfloor>x\<rfloor> < 1 / 2 then \<lfloor>x\<rfloor>
      else if 1 / 2 < x - of_int \<lfloor>x\<rfloor> then \<lfloor>x\<rfloor> + 1
      else if even \<lfloor>x\<rfloor> then \<lfloor>x\<rfloor> else \<lfloor>x\<rfloor> + 1)"

definition binade :: "real \<Rightarrow> int" where
  "binade x = max \<lfloor>log 2 \<bar>x\<bar>\<rfloor> (- 1022)"

definition ulp :: "real \<Rightarrow> real" where
  "ulp x = 2 powr of_int (binade x - 52)"

definition round_double :: "real \<Rightarrow> real" where
  "round_double x = (if x = 0 then 0 else ulp x * of_int (round_half_even (x / ulp x)))"

text \<open>\<open>a + b\<close> on two finite doubles, and \<open>Math.max\<close> of a number and a finite double.\<close>

definition js_add :: "real \<Rightarrow> real \<Rightarrow> number" where
  "js_add a b =
     (let r = round_double (a + b)
      in if 2 ^ 1024 \<le> r then PosInf else if r \<le> - (2 ^ 1024) then NegInf else Finite r)"

definition js_max :: "number \<Rightarrow> real \<Rightarrow> number" where
  "js_max a c = (case a of Finite x \<Rightarrow> Finite (max x c) | PosInf \<Rightarrow> PosInf | NegInf \<Rightarrow> Finite c)"

section \<open>Platform objects\<close>

text \<open>
  Exceptions a handler can end with: \<open>InvalidStateError\<close> and \<open>RangeError\<close> from the
  audio graph, \<open>TypeError\<close> from reading a property of \<open>undefined\<close>, from calling
  what is no function and from an argument that is null or not finite, and the rejection
  of \<open>getUserMedia\<close> with its message.
\<close>

datatype js_error = InvalidStateError | RangeError | TypeError | DeviceError string

datatype audio_context_state = Suspended | Running | Closed

record media_blob =
  data :: string
  mimeType :: string

text \<open>A remote session: whether \<open>close()\<close> was called on it, and the realtime inputs sent.\<close>

record live_session =
  session_closed :: bool
  realtime_inputs :: "media_blob list"

text \<open>
  An \<open>AudioBufferSourceNode\<close>: the time given to \<open>start\<close> (\<open>None\<close> before \<open>start\<close> is
  called), the duration of its buffer, whether \<open>stop\<close> was called, and whether its
  \<open>ended\<close> event has fired.
\<close>

record buffer_source =
  start_time :: "real option"
  duration :: real
  stopped :: bool
  ended :: bool

record interval_timer =
  active :: bool
  period_ms :: nat

record platform =
  sessions :: "live_session list"
  streams :: "bool list"
  contexts :: "audio_context_state list"
  nodes :: "bool list"
  sources :: "buffer_source list"
  intervals :: "interval_timer list"

text \<open>
  \<open>streams\<close> holds, for every \<open>MediaStream\<close> obtained from \<open>getUserMedia\<close>, whether its
  tracks are still live; \<open>nodes\<close> holds, for every capture-side graph node, whether it is
  connected.
\<close>

definition modify :: "nat \<Rightarrow> ('a \<Rightarrow> 'a) \<Rightarrow> 'a list \<Rightarrow> 'a list" where
  "modify i f xs = (if i < length xs then xs[i := f (xs ! i)] else xs)"

definition session_close :: "nat \<Rightarrow> live_session list \<Rightarrow> live_session list" where
  "session_close i ss = modify i (\<lambda>s. s\<lparr>session_closed := True\<rparr>) ss"

definition sendRealtimeInput :: "nat \<Rightarrow> media_blob \<Rightarrow> live_session list \<Rightarrow> live_session list" where
  "sendRealtimeInput i b ss = modify i (\<lambda>s. s\<lparr>realtime_inputs := realtime_inputs s @ [b]\<rparr>) ss"

definition tracks_stop :: "nat \<Rightarrow> bool list \<Rightarrow> bool list" where
  "tracks_stop i ms = modify i (\<lambda>_. False) ms"

definition disconnect :: "nat \<Rightarrow> bool list \<Rightarrow> bool list" where
  "disconnect i ns = modify i (\<lambda>_. False) ns"

definition clearInterval :: "nat \<Rightarrow> interval_timer list \<Rightarrow> interval_timer list" where
  "clearInterval i ts = modify i (\<lambda>t. t\<lparr>active := False\<rparr>) ts"

text \<open>
  \<open>if (ref.current?.state !== 'closed') ref.current?.close()\<close>: nothing happens on a null
  ref or on a closed context; otherwise the context becomes closed.
\<close>

definition close_unless_closed :: "nat option \<Rightarrow> audio_context_state list \<Rightarrow> audio_context_state list" where
  "close_unless_closed r cs =
     (case r of
        None \<Rightarrow> cs
      | Some i \<Rightarrow> if i < length cs \<and> cs ! i \<noteq> Closed then cs[i := Closed] else cs)"

text \<open>
  \<open>source.stop()\<close> raises \<open>InvalidStateError\<close> on a node whose \<open>start\<close> was never called.
\<close>

definition source_stop :: "nat \<Rightarrow> buffer_source list \<Rightarrow> buffer_source list \<times> js_error option" where
  "source_stop i ss =
     (if i < length ss \<and> start_time (ss ! i) \<noteq> None
      then (ss[i := (ss ! i)\<lparr>stopped := True\<rparr>], None)
      else (ss, Some InvalidStateError))"

text \<open>\<open>playingSources.current.forEach(source => source.stop())\<close>, in insertion order.\<close>

fun stop_each :: "nat list \<Rightarrow> buffer_source list \<Rightarrow> buffer_source list \<times> js_error option" where
  "stop_each [] ss = (ss, None)"
| "stop_each (i # rest) ss =
     (case source_stop i ss of
        (ss', Some e) \<Rightarrow> (ss', Some e)
      | (ss', None) \<Rightarrow> stop_each rest ss')"

section \<open>The voice-chat panel\<close>

record turn =
  user :: string
  model :: string

text \<open>
  The component: whether it is mounted, its React state, its refs, and the two
  transcription buffers, which are locals of \<open>startConversation\<close> shared by its callbacks.
\<close>

record voice_chat = platform +
  mounted :: bool
  isLive :: bool
  transcriptions :: "turn list"
  error :: "string option"
  sessionPromiseRef :: "nat option"
  streamRef :: "nat option"
  audioContextRef :: "nat option"
  scriptProcessorRef :: "nat option"
  sourceRef :: "nat option"
  outputAudioContextRef :: "nat option"
  nextStartTimeRef :: number
  playingSources :: "nat list"
  currentInputTranscription :: string
  currentOutputTranscription :: string

text \<open>
  The fields of a \<open>LiveServerMessage\<close> that \<open>onmessage\<close> reads, each \<open>None\<close> or \<open>False\<close>
  when absent. A transcription is an object whose \<open>text\<close> may be missing. A model turn
  either has no \<open>parts\<close> at all, or has parts, of which \<open>onmessage\<close> reads the inline data
  of the first (\<open>None\<close> when there is no first part or it has no inline data).
\<close>

datatype model_turn = NoParts | FirstPart "string option"

record server_message =
  inputTranscription :: "string option option"
  outputTranscription :: "string option option"
  turnComplete :: bool
  modelTurn :: "model_turn option"
  interrupted :: bool

text \<open>
  What \<open>+=\<close> appends for a transcription: nothing is appended when the transcription is
  absent, the string \<open>undefined\<close> when its text is missing.
\<close>

definition fragment :: "string option option \<Rightarrow> string" where
  "fragment t = (case t of None \<Rightarrow> [] | Some None \<Rightarrow> ''undefined'' | Some (Some s) \<Rightarrow> s)"

text \<open>
  \<open>message.serverContent?.modelTurn?.parts[0]?.inlineData?.data\<close>: the index into \<open>parts\<close>
  is not guarded, so a model turn without parts raises \<open>TypeError\<close>.
\<close>

definition base64Audio :: "server_message \<Rightarrow> js_error + string option" where
  "base64Audio message =
     (case modelTurn message of
        None \<Rightarrow> Inr None
      | Some NoParts \<Rightarrow> Inl TypeError
      | Some (FirstPart inlineData) \<Rightarrow> Inr inlineData)"

text \<open>
  Scheduling one decoded segment. The playback offset becomes the maximum of itself and the
  clock of the output context; a node is created; \<open>start\<close> is called with the offset,
  which raises \<open>TypeError\<close> when the offset is not finite and \<open>RangeError\<close> when it is
  negative; then the offset advances by the buffer's duration and the node joins
  \<open>playingSources\<close>.
\<close>

definition schedule_segment :: "real \<Rightarrow> real \<Rightarrow> voice_chat \<Rightarrow> voice_chat \<times> js_error option" where
  "schedule_segment currentTime d st =
     (let offset = js_max (nextStartTimeRef st) currentTime;
          source = length (sources st);
          st1 = st\<lparr>nextStartTimeRef := offset,
                   sources := sources st @
                     [\<lparr>start_time = None, duration = d, stopped = False, ended = False\<rparr>]\<rparr>
      in case offset of
           Finite t \<Rightarrow>
             if t < 0 then (st1, Some RangeError)
             else (st1\<lparr>sources := sources st @
                         [\<lparr>start_time = Some t, duration = d, stopped = False, ended = False\<rparr>],
                       nextStartTimeRef := js_add t d,
                       playingSources := playingSources st @ [source]\<rparr>,
                   None)
         | _ \<Rightarrow> (st1, Some TypeError))"

text \<open>
  \<open>onmessage\<close> of the voice chat, in three parts: \<open>vc_onmessage_transcript\<close> is the
  handling of the transcriptions and of the turn-complete marker, \<open>vc_onmessage_content\<close>
  continues with the inline audio, and \<open>vc_onmessage\<close> adds the handling of the
  interruption marker, which is reached only when nothing was raised before.

  On the turn-complete marker the handler passes an updater function to
  \<open>setTranscriptions\<close> and then empties the two buffers. React runs the updater when it next
  renders the component, after the handler: the entry the updater builds holds the buffers
  as they are then, emptied.

  \<open>decodeAudioData\<close> comes from the utilities module, whose source is not available: the
  duration of the buffer it returns for a payload is the parameter \<open>bufferDuration\<close>, and
  it is taken to return a buffer, before the next event is handled. \<open>currentTime\<close> is the
  clock of the output context when the message is handled.
\<close>

definition vc_onmessage_transcript :: "server_message \<Rightarrow> voice_chat \<Rightarrow> voice_chat" where
  "vc_onmessage_transcript message st =
     (let st1 = st\<lparr>currentInputTranscription :=
                     currentInputTranscription st @ fragment (inputTranscription message)\<rparr>;
          st2 = st1\<lparr>currentOutputTranscription :=
                      currentOutputTranscription st1 @ fragment (outputTranscription message)\<rparr>
      in if turnComplete message
         then (let emptied = st2\<lparr>currentInputTranscription := [],
                                 currentOutputTranscription := []\<rparr>
               in emptied\<lparr>transcriptions := transcriptions emptied @
                            [\<lparr>user = currentInputTranscription emptied,
                              model = currentOutputTranscription emptied\<rparr>]\<rparr>)
         else st2)"

definition vc_onmessage_content ::
  "(string \<Rightarrow> real) \<Rightarrow> real \<Rightarrow> server_message \<Rightarrow> voice_chat \<Rightarrow> voice_chat \<times> js_error option" where
  "vc_onmessage_content bufferDuration currentTime message st =
     (let st3 = vc_onmessage_transcript message st
      in case base64Audio message of
           Inl e \<Rightarrow> (st3, Some e)
         | Inr None \<Rightarrow> (st3, None)
         | Inr (Some base64) \<Rightarrow>
             if base64 \<noteq> [] \<and> outputAudioContextRef st3 \<noteq> None
             then schedule_segment currentTime (bufferDuration base64) st3
             else (st3, None))"

definition vc_onmessage ::
  "(string \<Rightarrow> real) \<Rightarrow> real \<Rightarrow> server_message \<Rightarrow> voice_chat \<Rightarrow> voice_chat \<times> js_error option" where
  "vc_onmessage bufferDuration currentTime message st =
     (case vc_onmessage_content bufferDuration currentTime message st of
        (st4, Some e) \<Rightarrow> (st4, Some e)
      | (st4, None) \<Rightarrow>
          if interrupted message
          then (case stop_each (playingSources st4) (sources st4) of
                  (ss, Some e) \<Rightarrow> (st4\<lparr>sources := ss\<rparr>, Some e)
                | (ss, None) \<Rightarrow>
                    (st4\<lparr>sources := ss, playingSources := [], nextStartTimeRef := Finite 0\<rparr>,
                     None))
          else (st4, None))"

text \<open>The panel as it is mounted, and a message that carries nothing.\<close>

definition vc_initial :: voice_chat where
  "vc_initial =
     \<lparr>sessions = [], streams = [], contexts = [], nodes = [], sources = [], intervals = [],
      mounted = True, isLive = False, transcriptions = [], error = None,
      sessionPromiseRef = None, streamRef = None, audioContextRef = None,
      scriptProcessorRef = None, sourceRef = None, outputAudioContextRef = None,
      nextStartTimeRef = Finite 0, playingSources = [],
      currentInputTranscription = [], currentOutputTranscription = []\<rparr>"

definition no_content :: server_message where
  "no_content =
     \<lparr>inputTranscription = None, outputTranscription = None, turnComplete = False,
      modelTurn = None, interrupted = False\<rparr>"

text \<open>
  \<open>stopConversation\<close>. \<open>session.close()\<close> runs in a \<open>then\<close> callback of the session
  promise; it is taken here at the point where it is requested.
\<close>

definition stopConversation :: "voice_chat \<Rightarrow> voice_chat \<times> js_error option" where
  "stopConversation st =
     (let st1 = (case sessionPromiseRef st of
                   None \<Rightarrow> st
                 | Some s \<Rightarrow> st\<lparr>sessions := session_close s (sessions st),
                                 sessionPromiseRef := None\<rparr>);
          st2 = (case streamRef st1 of
                   None \<Rightarrow> st1
                 | Some m \<Rightarrow> st1\<lparr>streams := tracks_stop m (streams st1), streamRef := None\<rparr>);
          st3 = (case scriptProcessorRef st2 of
                   None \<Rightarrow> st2
                 | Some n \<Rightarrow> st2\<lparr>nodes := disconnect n (nodes st2)\<rparr>);
          st4 = (case sourceRef st3 of
                   None \<Rightarrow> st3
                 | Some n \<Rightarrow> st3\<lparr>nodes := disconnect n (nodes st3)\<rparr>);
          st5 = st4\<lparr>contexts := close_unless_closed (audioContextRef st4) (contexts st4)\<rparr>;
          st6 = st5\<lparr>contexts := close_unless_closed (outputAudioContextRef st5) (contexts st5)\<rparr>
      in case stop_each (playingSources st6) (sources st6) of
           (ss, Some e) \<Rightarrow> (st6\<lparr>sources := ss\<rparr>, Some e)
         | (ss, None) \<Rightarrow>
             (st6\<lparr>sources := ss, playingSources := [], nextStartTimeRef := Finite 0,
                  isLive := False\<rparr>,
              None))"

text \<open>
  \<open>startConversation\<close>. \<open>thrown\<close> is \<open>Some msg\<close> when constructing the client or the
  output context throws an error with that message (in either case before any ref is
  assigned), and \<open>None\<close> when the \<open>try\<close> block runs to its end. \<open>ai.live.connect\<close> returns
  a promise that is stored without being awaited: a later rejection of it reaches no handler
  here.
\<close>

definition startConversation :: "string option \<Rightarrow> voice_chat \<Rightarrow> voice_chat \<times> js_error option" where
  "startConversation thrown st =
     (if isLive st then (st, None)
      else
        (let st1 = st\<lparr>isLive := True, error := None, transcriptions := [],
                      currentInputTranscription := [], currentOutputTranscription := []\<rparr>
         in case thrown of
              Some msg \<Rightarrow> stopConversation (st1\<lparr>error := Some msg\<rparr>)
            | None \<Rightarrow>
                (st1\<lparr>contexts := contexts st1 @ [Running],
                     outputAudioContextRef := Some (length (contexts st1)),
                     sessions := sessions st1 @ [\<lparr>session_closed = False, realtime_inputs = []\<rparr>],
                     sessionPromiseRef := Some (length (sessions st1))\<rparr>,
                 None)))"

text \<open>
  \<open>onopen\<close> of the voice chat. \<open>denied\<close> is \<open>Some msg\<close> when \<open>getUserMedia\<close> rejects: the
  \<open>await\<close> then ends the callback with that rejection, which nothing in the component
  catches.
\<close>

definition vc_onopen :: "string option \<Rightarrow> voice_chat \<Rightarrow> voice_chat \<times> js_error option" where
  "vc_onopen denied st =
     (case denied of
        Some msg \<Rightarrow> (st, Some (DeviceError msg))
      | None \<Rightarrow>
          (st\<lparr>streams := streams st @ [True],
              streamRef := Some (length (streams st)),
              contexts := contexts st @ [Running],
              audioContextRef := Some (length (contexts st)),
              nodes := nodes st @ [True, True],
              sourceRef := Some (length (nodes st)),
              scriptProcessorRef := Some (Suc (length (nodes st)))\<rparr>,
           None))"

subsection \<open>Outbound audio\<close>

text \<open>
  The conversion of a typed array of floats to an \<open>Int16Array\<close>: each element is truncated
  towards zero and reduced modulo \<open>2 ^ 16\<close>. Samples are finite floats, modelled by the
  reals they denote; multiplying one by \<open>32768 = 2 ^ 15\<close> is exact.
\<close>

definition truncated :: "real \<Rightarrow> int" where
  "truncated x = (if x < 0 then \<lceil>x\<rceil> else \<lfloor>x\<rfloor>)"

definition ToInt16 :: "real \<Rightarrow> 16 word" where
  "ToInt16 x = word_of_int (truncated x)"

definition pcm16 :: "real list \<Rightarrow> 16 word list" where
  "pcm16 inputData = map ToInt16 (map (\<lambda>x. x * 32768) inputData)"

text \<open>
  The bytes of the array's buffer, in the byte order of the platform: low byte first.
\<close>

definition buffer_bytes :: "16 word list \<Rightarrow> 8 word list" where
  "buffer_bytes ws = concat (map (\<lambda>w. [ucast w, ucast (drop_bit 8 w)]) ws)"

text \<open>
  \<open>encode\<close> comes from the utilities module as well: it is a parameter.
  \<open>onaudioprocess\<close> sends the frame to the session in the ref, if there is one.
\<close>

definition pcmBlob :: "(8 word list \<Rightarrow> string) \<Rightarrow> real list \<Rightarrow> media_blob" where
  "pcmBlob encode inputData =
     \<lparr>data = encode (buffer_bytes (pcm16 inputData)), mimeType = ''audio/pcm;rate=16000''\<rparr>"

definition vc_onaudioprocess :: "(8 word list \<Rightarrow> string) \<Rightarrow> real list \<Rightarrow> voice_chat \<Rightarrow> voice_chat" where
  "vc_onaudioprocess encode inputData st =
     (case sessionPromiseRef st of
        None \<Rightarrow> st
      | Some s \<Rightarrow> st\<lparr>sessions := sendRealtimeInput s (pcmBlob encode inputData) (sessions st)\<rparr>)"

subsection \<open>Remaining handlers and events\<close>

text \<open>
  The \<open>ended\<close> event of a node, fired by the platform, and its handler
  \<open>source.onended\<close>: the node leaves \<open>playingSources\<close>.
\<close>

definition vc_onended :: "nat \<Rightarrow> voice_chat \<Rightarrow> voice_chat" where
  "vc_onended source st =
     st\<lparr>sources := modify source (\<lambda>s. s\<lparr>ended := True\<rparr>) (sources st),
        playingSources := removeAll source (playingSources st)\<rparr>"

text \<open>
  \<open>onerror\<close> sets the message from the type of the event and stops; \<open>onclose\<close> stops.
\<close>

definition vc_onerror :: "string \<Rightarrow> voice_chat \<Rightarrow> voice_chat \<times> js_error option" where
  "vc_onerror type st = stopConversation (st\<lparr>error := Some (''Live session error: '' @ type)\<rparr>)"

definition vc_onclose :: "voice_chat \<Rightarrow> voice_chat \<times> js_error option" where
  "vc_onclose st = stopConversation st"

text \<open>The button: \<open>onClick={isLive ? stopConversation : startConversation}\<close>.\<close>

definition vc_onClick :: "string option \<Rightarrow> voice_chat \<Rightarrow> voice_chat \<times> js_error option" where
  "vc_onClick thrown st = (if isLive st then stopConversation st else startConversation thrown st)"

text \<open>
  The events of the voice chat, each with the outcome or the data it brings, and the
  handler an event runs. \<open>Click\<close> is a click on the button, \<open>Open\<close> the moment the
  \<open>getUserMedia\<close> request of \<open>onopen\<close> settles, \<open>Unmount\<close> the removal of the component,
  whose effect cleanup calls \<open>stopConversation\<close>.
\<close>

datatype vc_event =
    Click "string option"
  | Open "string option"
  | Message real server_message
  | AudioProcess "real list"
  | Ended nat
  | Error string
  | Close
  | Unmount

fun vc_handle ::
  "(string \<Rightarrow> real) \<Rightarrow> (8 word list \<Rightarrow> string) \<Rightarrow> vc_event \<Rightarrow> voice_chat \<Rightarrow>
   voice_chat \<times> js_error option" where
  "vc_handle bufferDuration encode (Click thrown) st = vc_onClick thrown st"
| "vc_handle bufferDuration encode (Open denied) st = vc_onopen denied st"
| "vc_handle bufferDuration encode (Message currentTime message) st =
     vc_onmessage bufferDuration currentTime message st"
| "vc_handle bufferDuration encode (AudioProcess inputData) st =
     (vc_onaudioprocess encode inputData st, None)"
| "vc_handle bufferDuration encode (Ended source) st = (vc_onended source st, None)"
| "vc_handle bufferDuration encode (Error type) st = vc_onerror type st"
| "vc_handle bufferDuration encode Close st = vc_onclose st"
| "vc_handle bufferDuration encode Unmount st = stopConversation st"

subsection \<open>Rendering\<close>

text \<open>
  After a handler React renders the component again. The transcript is rendered by
  \<open>transcriptions.map((t, i) => ... t('liveYou') ... t.user ...)\<close>: inside the callback
  the parameter \<open>t\<close> hides the translation function \<open>t\<close>, so rendering any entry calls an
  object and raises \<open>TypeError\<close>. No error boundary encloses the component, so React
  removes the whole tree: the effect cleanup runs \<open>stopConversation\<close>, and from then on
  the component has no state to update. Rendering an empty transcript raises nothing.

  \<open>frozen st st'\<close> is \<open>st'\<close> with the React state of \<open>st\<close>: what a handler leaves when the
  component is gone, its refs and the platform changed, its state updates dropped.
\<close>

definition frozen :: "voice_chat \<Rightarrow> voice_chat \<Rightarrow> voice_chat" where
  "frozen st st' =
     st'\<lparr>isLive := isLive st, error := error st, transcriptions := transcriptions st\<rparr>"

definition unmount :: "voice_chat \<Rightarrow> voice_chat" where
  "unmount st = (frozen st (fst (stopConversation st)))\<lparr>mounted := False\<rparr>"

definition render :: "voice_chat \<Rightarrow> voice_chat" where
  "render st = (if transcriptions st = [] then st else unmount st)"

text \<open>
  The step an event takes, and a run of events from a state. On a mounted component the
  handler runs and the component is rendered; an exception of the handler goes to its
  caller and leaves the state as the handler left it. On a component that is gone the
  button no longer exists, and a callback of the platform runs with its state updates
  dropped.
\<close>

definition vc_step ::
  "(string \<Rightarrow> real) \<Rightarrow> (8 word list \<Rightarrow> string) \<Rightarrow> vc_event \<Rightarrow> voice_chat \<Rightarrow> voice_chat" where
  "vc_step bufferDuration encode e st =
     (if mounted st
      then (case e of
              Unmount \<Rightarrow> unmount st
            | _ \<Rightarrow> render (fst (vc_handle bufferDuration encode e st)))
      else (case e of
              Click thrown \<Rightarrow> st
            | Unmount \<Rightarrow> st
            | _ \<Rightarrow> frozen st (fst (vc_handle bufferDuration encode e st))))"

fun vc_run ::
  "(string \<Rightarrow> real) \<Rightarrow> (8 word list \<Rightarrow> string) \<Rightarrow> vc_event list \<Rightarrow> voice_chat \<Rightarrow> voice_chat" where
  "vc_run bufferDuration encode [] st = st"
| "vc_run bufferDuration encode (e # es) st =
     vc_run bufferDuration encode es (vc_step bufferDuration encode e st)"

text \<open>Every node in \<open>playingSources\<close> exists and has been started.\<close>

definition sources_started :: "voice_chat \<Rightarrow> bool" where
  "sources_started st =
     list_all (\<lambda>i. i < length (sources st) \<and> start_time (sources st ! i) \<noteq> None)
       (playingSources st)"

text \<open>
  A node is pending while it is scheduled or playing: started, not stopped, not ended.
  Every pending node of the store is in \<open>playingSources\<close>.
\<close>

definition pending :: "buffer_source \<Rightarrow> bool" where
  "pending s = (start_time s \<noteq> None \<and> \<not> stopped s \<and> \<not> ended s)"

definition pending_tracked :: "voice_chat \<Rightarrow> bool" where
  "pending_tracked st =
     list_all (\<lambda>i. pending (sources st ! i) \<longrightarrow> i \<in> set (playingSources st))
       [0..<length (sources st)]"

text \<open>
  Both together, and that a mounted component shows an empty transcript: they hold in
  every state the panel reaches.
\<close>

definition invariant :: "voice_chat \<Rightarrow> bool" where
  "invariant st =
     (sources_started st \<and> pending_tracked st \<and> (mounted st \<longrightarrow> transcriptions st = []))"

text \<open>The stream a ref points to still has live tracks.\<close>

definition holds_live_stream :: "nat option \<Rightarrow> bool list \<Rightarrow> bool" where
  "holds_live_stream r ms = (case r of None \<Rightarrow> False | Some i \<Rightarrow> i < length ms \<and> ms ! i)"


section \<open>The visual-assistant panel\<close>

record visual_assistant = platform +
  va_isLive :: bool
  va_error :: "string option"
  va_intervalRef :: "nat option"
  va_sessionPromiseRef :: "nat option"
  va_streamRef :: "nat option"
  va_audioContextRef :: "nat option"
  va_scriptProcessorRef :: "nat option"
  va_pending :: nat

text \<open>
  \<open>va_pending\<close> counts the calls of \<open>startSession\<close> that are suspended at their
  \<open>await getUserMedia\<close>.
\<close>

definition va_initial :: visual_assistant where
  "va_initial =
     \<lparr>sessions = [], streams = [], contexts = [], nodes = [], sources = [], intervals = [],
      va_isLive = False, va_error = None, va_intervalRef = None, va_sessionPromiseRef = None,
      va_streamRef = None, va_audioContextRef = None, va_scriptProcessorRef = None,
      va_pending = 0\<rparr>"

text \<open>
  The video and canvas elements are not part of the state: attaching the stream to the
  video element changes nothing that a handler reads.

  \<open>stopSession\<close>: no ref is reset. A timer handle is a positive number, so the test of
  \<open>intervalRef.current\<close> is a test against \<open>null\<close>.
\<close>

definition stopSession :: "visual_assistant \<Rightarrow> visual_assistant" where
  "stopSession st =
     (let st1 = (case va_intervalRef st of
                   None \<Rightarrow> st
                 | Some t \<Rightarrow> st\<lparr>intervals := clearInterval t (intervals st)\<rparr>);
          st2 = (case va_sessionPromiseRef st1 of
                   None \<Rightarrow> st1
                 | Some s \<Rightarrow> st1\<lparr>sessions := session_close s (sessions st1)\<rparr>);
          st3 = (case va_streamRef st2 of
                   None \<Rightarrow> st2
                 | Some m \<Rightarrow> st2\<lparr>streams := tracks_stop m (streams st2)\<rparr>);
          st4 = (case va_scriptProcessorRef st3 of
                   None \<Rightarrow> st3
                 | Some n \<Rightarrow> st3\<lparr>nodes := disconnect n (nodes st3)\<rparr>);
          st5 = st4\<lparr>contexts := close_unless_closed (va_audioContextRef st4) (contexts st4)\<rparr>
      in st5\<lparr>va_isLive := False\<rparr>)"

text \<open>
  \<open>startSession\<close> has no guard. It runs in two parts: up to the \<open>await\<close> of
  \<open>getUserMedia\<close>, and from there when the request settles. In between other events are
  handled. \<open>denied\<close> is \<open>Some msg\<close> when \<open>getUserMedia\<close> rejects; \<open>thrown\<close> is \<open>Some msg\<close>
  when constructing the client throws, after the stream was obtained. Both end in the
  \<open>catch\<close> block. \<open>startSession\<close> is the call when nothing else happens in between.
\<close>

definition startSession_begin :: "visual_assistant \<Rightarrow> visual_assistant" where
  "startSession_begin st = st\<lparr>va_isLive := True, va_error := None, va_pending := Suc (va_pending st)\<rparr>"

definition startSession_resume ::
  "string option \<Rightarrow> string option \<Rightarrow> visual_assistant \<Rightarrow> visual_assistant" where
  "startSession_resume denied thrown st =
     (let st1 = st\<lparr>va_pending := va_pending st - 1\<rparr>
      in case denied of
           Some msg \<Rightarrow> stopSession (st1\<lparr>va_error := Some msg\<rparr>)
         | None \<Rightarrow>
             (let st2 = st1\<lparr>streams := streams st1 @ [True],
                           va_streamRef := Some (length (streams st1))\<rparr>
              in case thrown of
                   Some msg \<Rightarrow> stopSession (st2\<lparr>va_error := Some msg\<rparr>)
                 | None \<Rightarrow>
                     st2\<lparr>sessions := sessions st2 @ [\<lparr>session_closed = False, realtime_inputs = []\<rparr>],
                         va_sessionPromiseRef := Some (length (sessions st2))\<rparr>))"

definition startSession :: "string option \<Rightarrow> string option \<Rightarrow> visual_assistant \<Rightarrow> visual_assistant" where
  "startSession denied thrown st = startSession_resume denied thrown (startSession_begin st)"

text \<open>
  \<open>onopen\<close> of the visual assistant: the capture graph and the frame timer of 1000 ms.
  \<open>createMediaStreamSource\<close> raises \<open>TypeError\<close> on a null stream.
\<close>

definition va_onopen :: "visual_assistant \<Rightarrow> visual_assistant \<times> js_error option" where
  "va_onopen st =
     (let st1 = st\<lparr>contexts := contexts st @ [Running],
                   va_audioContextRef := Some (length (contexts st))\<rparr>
      in case va_streamRef st1 of
           None \<Rightarrow> (st1, Some TypeError)
         | Some m \<Rightarrow>
             (st1\<lparr>nodes := nodes st1 @ [True, True],
                  va_scriptProcessorRef := Some (Suc (length (nodes st1))),
                  intervals := intervals st1 @ [\<lparr>active = True, period_ms = 1000\<rparr>],
                  va_intervalRef := Some (length (intervals st1))\<rparr>,
              None))"

definition va_onaudioprocess ::
  "(8 word list \<Rightarrow> string) \<Rightarrow> real list \<Rightarrow> visual_assistant \<Rightarrow> visual_assistant" where
  "va_onaudioprocess encode inputData st =
     (case va_sessionPromiseRef st of
        None \<Rightarrow> st
      | Some s \<Rightarrow> st\<lparr>sessions := sendRealtimeInput s (pcmBlob encode inputData) (sessions st)\<rparr>)"

text \<open>
  The timer callback. \<open>snapshot\<close> is the base64 data of the JPEG the canvas produced, or
  \<open>None\<close> when the video or canvas element is missing or \<open>toBlob\<close> yields no blob.
\<close>

definition va_frame :: "string option \<Rightarrow> visual_assistant \<Rightarrow> visual_assistant" where
  "va_frame snapshot st =
     (case snapshot of
        None \<Rightarrow> st
      | Some base64Data \<Rightarrow>
          (case va_sessionPromiseRef st of
             None \<Rightarrow> st
           | Some s \<Rightarrow>
               st\<lparr>sessions := sendRealtimeInput s \<lparr>data = base64Data, mimeType = ''image/jpeg''\<rparr>
                                 (sessions st)\<rparr>))"

text \<open>\<open>onmessage\<close> of the visual assistant has an empty body.\<close>

definition va_onmessage :: "server_message \<Rightarrow> visual_assistant \<Rightarrow> visual_assistant" where
  "va_onmessage msg st = st"

definition va_onerror :: "string \<Rightarrow> visual_assistant \<Rightarrow> visual_assistant" where
  "va_onerror type st = stopSession (st\<lparr>va_error := Some type\<rparr>)"

definition va_onclose :: "visual_assistant \<Rightarrow> visual_assistant" where
  "va_onclose st = stopSession st"

text \<open>
  The button: \<open>onClick={isLive ? stopSession : startSession}\<close>. A click on the start
  button runs \<open>startSession\<close> up to its \<open>await\<close>.
\<close>

definition va_onClick :: "visual_assistant \<Rightarrow> visual_assistant" where
  "va_onClick st = (if va_isLive st then stopSession st else startSession_begin st)"

fun va_deliver :: "server_message list \<Rightarrow> visual_assistant \<Rightarrow> visual_assistant" where
  "va_deliver [] st = st"
| "va_deliver (msg # rest) st = va_deliver rest (va_onmessage msg st)"

text \<open>
  The events of the visual assistant and the step an event takes. \<open>VMedia\<close> is the moment
  a pending \<open>getUserMedia\<close> request settles; there is none to settle when no call is
  suspended.
\<close>

datatype va_event =
    VClick
  | VMedia "string option" "string option"
  | VOpen
  | VMessage server_message
  | VAudioProcess "real list"
  | VFrame "string option"
  | VError string
  | VClose

fun va_step :: "(8 word list \<Rightarrow> string) \<Rightarrow> va_event \<Rightarrow> visual_assistant \<Rightarrow> visual_assistant" where
  "va_step encode VClick st = va_onClick st"
| "va_step encode (VMedia denied thrown) st =
     (if 0 < va_pending st then startSession_resume denied thrown st else st)"
| "va_step encode VOpen st = fst (va_onopen st)"
| "va_step encode (VMessage msg) st = va_onmessage msg st"
| "va_step encode (VAudioProcess inputData) st = va_onaudioprocess encode inputData st"
| "va_step encode (VFrame snapshot) st = va_frame snapshot st"
| "va_step encode (VError type) st = va_onerror type st"
| "va_step encode VClose st = va_onclose st"

fun va_run :: "(8 word list \<Rightarrow> string) \<Rightarrow> va_event list \<Rightarrow> visual_assistant \<Rightarrow> visual_assistant" where
  "va_run encode [] st = st"
| "va_run encode (e # es) st = va_run encode es (va_step encode e st)"

section \<open>The playback schedule\<close>

text \<open>
  The audio payload of a message (empty when it has none), and a message that carries a
  non-empty payload and neither the interruption nor the turn-complete marker.
\<close>

definition payload :: "server_message \<Rightarrow> string" where
  "payload message = (case base64Audio message of Inr (Some p) \<Rightarrow> p | _ \<Rightarrow> [])"

definition audio_only :: "server_message \<Rightarrow> bool" where
  "audio_only message =
     (payload message \<noteq> [] \<and> \<not> interrupted message \<and> \<not> turnComplete message)"





text \<open>
  The schedule in the words of the specification: given the end of the previous segment
  and, for each arriving segment, the clock time at its arrival and its duration, every
  segment starts at the maximum of the previous end and the clock time.
\<close>

fun timeline :: "real \<Rightarrow> (real \<times> real) list \<Rightarrow> buffer_source list" where
  "timeline previous_end [] = []"
| "timeline previous_end ((clock, d) # rest) =
     \<lparr>start_time = Some (max previous_end clock), duration = d, stopped = False, ended = False\<rparr> #
     timeline (round_double (max previous_end clock + d)) rest"

section \<open>Teardown\<close>

text \<open>What it means for the object behind a ref to have been released.\<close>

definition session_closed_ref :: "nat option \<Rightarrow> live_session list \<Rightarrow> bool" where
  "session_closed_ref r ss =
     (case r of None \<Rightarrow> True | Some i \<Rightarrow> i < length ss \<longrightarrow> session_closed (ss ! i))"

definition disconnected_ref :: "nat option \<Rightarrow> bool list \<Rightarrow> bool" where
  "disconnected_ref r ns = (case r of None \<Rightarrow> True | Some i \<Rightarrow> i < length ns \<longrightarrow> \<not> ns ! i)"

definition closed_ref :: "nat option \<Rightarrow> audio_context_state list \<Rightarrow> bool" where
  "closed_ref r cs = (case r of None \<Rightarrow> True | Some i \<Rightarrow> i < length cs \<longrightarrow> cs ! i = Closed)"

definition cleared_ref :: "nat option \<Rightarrow> interval_timer list \<Rightarrow> bool" where
  "cleared_ref r ts = (case r of None \<Rightarrow> True | Some i \<Rightarrow> i < length ts \<longrightarrow> \<not> active (ts ! i))"

text \<open>
  \<open>torn_down st st'\<close>: in \<open>st'\<close> the voice chat is idle, references no session and no
  stream, everything \<open>st\<close> referenced has been released, nothing is queued or pending, the
  playback offset is zero, and no session was created.
\<close>

definition torn_down :: "voice_chat \<Rightarrow> voice_chat \<Rightarrow> bool" where
  "torn_down st st' =
     (\<not> isLive st' \<and> sessionPromiseRef st' = None \<and> streamRef st' = None \<and>
      session_closed_ref (sessionPromiseRef st) (sessions st') \<and>
      \<not> holds_live_stream (streamRef st) (streams st') \<and>
      disconnected_ref (scriptProcessorRef st) (nodes st') \<and>
      disconnected_ref (sourceRef st) (nodes st') \<and>
      closed_ref (audioContextRef st) (contexts st') \<and>
      closed_ref (outputAudioContextRef st) (contexts st') \<and>
      playingSources st' = [] \<and> list_all (\<lambda>s. \<not> pending s) (sources st') \<and>
      nextStartTimeRef st' = Finite 0 \<and>
      length (sessions st') = length (sessions st))"

definition va_torn_down :: "visual_assistant \<Rightarrow> visual_assistant \<Rightarrow> bool" where
  "va_torn_down v v' =
     (\<not> va_isLive v' \<and>
      cleared_ref (va_intervalRef v) (intervals v') \<and>
      session_closed_ref (va_sessionPromiseRef v) (sessions v') \<and>
      \<not> holds_live_stream (va_streamRef v) (streams v') \<and>
      \<not> holds_live_stream (va_streamRef v') (streams v') \<and>
      disconnected_ref (va_scriptProcessorRef v) (nodes v') \<and>
      closed_ref (va_audioContextRef v) (contexts v') \<and>
      length (sessions v') = length (sessions v))"

section \<open>Sample states\<close>

text \<open>A message that carries audio only.\<close>

definition audio_message :: server_message where
  "audio_message = no_content\<lparr>modelTurn := Some (FirstPart (Some ''AAA=''))\<rparr>"

text \<open>
  A voice chat that was started, whose session opened, and that scheduled one segment of
  one second at clock time 0; a voice chat right after a successful start; a visual
  assistant that was started and whose session opened.
\<close>

definition vc_playing :: voice_chat where
  "vc_playing =
     vc_run (\<lambda>_. 1) (\<lambda>_. []) [Click None, Open None, Message 0 audio_message] vc_initial"

definition vc_started :: voice_chat where
  "vc_started = fst (startConversation None vc_initial)"


definition va_open :: visual_assistant where
  "va_open = fst (va_onopen (startSession None None va_initial))"

section \<open>Double arithmetic\<close>

lemma round_half_even_of_int [simp]: "round_half_even (of_int n) = n"
  by (simp add: round_half_even_def)

lemma round_half_even_range: "\<lfloor>x\<rfloor> \<le> round_half_even x \<and> round_half_even x \<le> \<lfloor>x\<rfloor> + 1"
  by (simp add: round_half_even_def)

lemma round_half_even_mono: "x \<le> y \<Longrightarrow> round_half_even x \<le> round_half_even y"
proof -
  assume xy: "x \<le> y"
  then have fl: "\<lfloor>x\<rfloor> \<le> \<lfloor>y\<rfloor>" by (rule floor_mono)
  show ?thesis
  proof (cases "\<lfloor>x\<rfloor> = \<lfloor>y\<rfloor>")
    case True
    then show ?thesis using xy by (auto simp: round_half_even_def)
  next
    case False
    then have "\<lfloor>x\<rfloor> + 1 \<le> \<lfloor>y\<rfloor>" using fl by simp
    then show ?thesis using round_half_even_range [of x] round_half_even_range [of y] by linarith
  qed
qed

lemma round_half_even_ge: "of_int n \<le> x \<Longrightarrow> n \<le> round_half_even x"
  using round_half_even_mono [of "of_int n" x] by simp


lemma ulp_pos [simp]: "0 < ulp x"
  by (simp add: ulp_def)

lemma ulp_nonneg [simp]: "0 \<le> ulp x"
  by (simp add: ulp_def)

lemma ulp_neq_0 [simp]: "ulp x \<noteq> 0"
  by (simp add: ulp_def)








lemma round_double_nonneg: "0 \<le> x \<Longrightarrow> 0 \<le> round_double x"
proof (cases "x = 0")
  case True then show ?thesis by (simp add: round_double_def)
next
  case False
  assume "0 \<le> x"
  then have "of_int 0 \<le> x / ulp x" using ulp_pos [of x] by (simp add: less_imp_le)
  then have "0 \<le> round_half_even (x / ulp x)" by (rule round_half_even_ge)
  then show ?thesis using False by (simp add: round_double_def)
qed


text \<open>Natural numbers below \<open>2 ^ 53\<close> are doubles.\<close>

lemma round_double_nat:
  assumes "0 < n" and "n < 2 ^ 53"
  shows "round_double (real n) = real n"
proof -
  let ?b = "\<lfloor>log 2 (real n)\<rfloor>"
  have pos: "0 < real n" using assms by simp
  have lo: "2 powr of_int ?b \<le> real n" and hi: "real n < 2 powr of_int (?b + 1)"
    using floor_log_eq_powr_iff [of "real n" 2 ?b] pos by simp_all
  have "1 \<le> real n" using assms by simp
  then have "0 \<le> log 2 (real n)" by simp
  then have b0: "0 \<le> ?b" by simp
  have "real n < 2 ^ 53"
    using assms(2) by (metis of_nat_less_iff of_nat_numeral of_nat_power)
  then have "2 powr of_int ?b < (2::real) powr 53"
    using lo by simp
  then have b53: "?b < 53" by (simp only: powr_less_cancel_iff)
  have bin: "binade (real n) = ?b" using b0 by (simp add: binade_def)
  define k where "k = nat (52 - ?b)"
  have k: "of_int (52 - ?b) = real k" using b53 by (simp add: k_def)
  have "ulp (real n) = 2 powr (- real k)"
    unfolding ulp_def bin using k by (smt (verit) of_int_diff of_int_minus minus_diff_eq)
  then have u: "ulp (real n) = 1 / 2 ^ k"
    by (simp add: powr_minus powr_realpow inverse_eq_divide)
  have "real n / ulp (real n) = of_int (int n * 2 ^ k)"
    by (simp add: u)
  then have "round_half_even (real n / ulp (real n)) = int n * 2 ^ k"
    by (simp only: round_half_even_of_int)
  then show ?thesis using pos by (simp add: round_double_def u)
qed

lemma round_double_0 [simp]: "round_double 0 = 0"
  by (simp add: round_double_def)

lemma round_double_1 [simp]: "round_double 1 = 1"
  using round_double_nat [of 1] by simp

lemma round_double_numeral [simp]:
  "numeral k < (2::nat) ^ 53 \<Longrightarrow> round_double (numeral k) = numeral k"
  using round_double_nat [of "numeral k"] by simp





text \<open>Sums that stay below \<open>2 ^ 1024\<close> are finite; sums of non-negative numbers are never \<open>-\<infinity>\<close>.\<close>

lemma js_add_cases:
  assumes "0 \<le> a" and "0 \<le> b"
  shows "js_add a b = PosInf \<or> js_add a b = Finite (round_double (a + b))"
proof -
  have "0 \<le> round_double (a + b)" using assms by (intro round_double_nonneg) simp
  then show ?thesis by (simp add: js_add_def Let_def)
qed

lemma js_add_0_1 [simp]: "js_add 0 1 = Finite 1"
  by (simp add: js_add_def Let_def)

section \<open>The message handler, unfolded\<close>

lemma transcript_unfold:
  "vc_onmessage_transcript m st =
     st\<lparr>currentInputTranscription :=
           (if turnComplete m then [] else currentInputTranscription st @ fragment (inputTranscription m)),
        currentOutputTranscription :=
           (if turnComplete m then [] else currentOutputTranscription st @ fragment (outputTranscription m)),
        transcriptions :=
           (if turnComplete m then transcriptions st @ [\<lparr>user = [], model = []\<rparr>]
            else transcriptions st)\<rparr>"
  by (simp add: vc_onmessage_transcript_def Let_def)

lemma schedule_segment_finite:
  assumes "nextStartTimeRef st = Finite p" and "0 \<le> max p c"
  shows "schedule_segment c d st =
           (st\<lparr>sources := sources st @
                  [\<lparr>start_time = Some (max p c), duration = d, stopped = False, ended = False\<rparr>],
               nextStartTimeRef := js_add (max p c) d,
               playingSources := playingSources st @ [length (sources st)]\<rparr>, None)"
  using assms by (auto simp: schedule_segment_def js_max_def Let_def)

lemma content_audio:
  assumes "base64Audio m = Inr (Some b)" and "b \<noteq> []" and "outputAudioContextRef st \<noteq> None"
  shows "vc_onmessage_content d c m st = schedule_segment c (d b) (vc_onmessage_transcript m st)"
  using assms by (simp add: vc_onmessage_content_def Let_def transcript_unfold)

lemma onmessage_audio_only:
  assumes "audio_only m" and "outputAudioContextRef st \<noteq> None"
    and "nextStartTimeRef st = Finite p" and "0 \<le> max p c"
  shows "vc_onmessage d c m st =
           (st\<lparr>currentInputTranscription :=
                  currentInputTranscription st @ fragment (inputTranscription m),
               currentOutputTranscription :=
                  currentOutputTranscription st @ fragment (outputTranscription m),
               sources := sources st @
                  [\<lparr>start_time = Some (max p c), duration = d (payload m), stopped = False,
                    ended = False\<rparr>],
               nextStartTimeRef := js_add (max p c) (d (payload m)),
               playingSources := playingSources st @ [length (sources st)]\<rparr>, None)"
proof -
  obtain b where b: "base64Audio m = Inr (Some b)" "b \<noteq> []" "payload m = b"
    using assms(1) by (auto simp: audio_only_def payload_def split: sum.splits option.splits)
  have t: "vc_onmessage_transcript m st =
      st\<lparr>currentInputTranscription :=
            currentInputTranscription st @ fragment (inputTranscription m),
         currentOutputTranscription :=
            currentOutputTranscription st @ fragment (outputTranscription m)\<rparr>"
    using assms(1) by (simp add: transcript_unfold audio_only_def)
  have "vc_onmessage_content d c m st = schedule_segment c (d b) (vc_onmessage_transcript m st)"
    using b assms(2) by (intro content_audio) simp_all
  also have "\<dots> = (vc_onmessage_transcript m st
         \<lparr>sources := sources (vc_onmessage_transcript m st) @
                  [\<lparr>start_time = Some (max p c), duration = d b, stopped = False, ended = False\<rparr>],
          nextStartTimeRef := js_add (max p c) (d b),
          playingSources := playingSources (vc_onmessage_transcript m st) @
                  [length (sources (vc_onmessage_transcript m st))]\<rparr>, None)"
    using assms(3,4) by (intro schedule_segment_finite) (simp_all add: t)
  finally have "vc_onmessage_content d c m st =
      (st\<lparr>currentInputTranscription :=
                  currentInputTranscription st @ fragment (inputTranscription m),
               currentOutputTranscription :=
                  currentOutputTranscription st @ fragment (outputTranscription m),
               sources := sources st @
                  [\<lparr>start_time = Some (max p c), duration = d (payload m), stopped = False,
                    ended = False\<rparr>],
               nextStartTimeRef := js_add (max p c) (d (payload m)),
               playingSources := playingSources st @ [length (sources st)]\<rparr>, None)"
    by (simp add: t b)
  then show ?thesis
    using assms(1) by (simp add: vc_onmessage_def audio_only_def)
qed

lemma vc_step_mounted:
  "mounted st \<Longrightarrow> e \<noteq> Unmount \<Longrightarrow> vc_step d enc e st = render (fst (vc_handle d enc e st))"
  by (cases e) (simp_all add: vc_step_def)

lemma render_empty: "transcriptions st = [] \<Longrightarrow> render st = st"
  by (simp add: render_def)

section \<open>The sample states, evaluated\<close>
lemma vc_started_value:
  "vc_started =
     \<lparr>sessions = [\<lparr>session_closed = False, realtime_inputs = []\<rparr>], streams = [],
      contexts = [Running], nodes = [], sources = [], intervals = [],
      mounted = True, isLive = True, transcriptions = [], error = None,
      sessionPromiseRef = Some 0, streamRef = None, audioContextRef = None,
      scriptProcessorRef = None, sourceRef = None, outputAudioContextRef = Some 0,
      nextStartTimeRef = Finite 0, playingSources = [],
      currentInputTranscription = [], currentOutputTranscription = []\<rparr>"
  by (simp add: vc_started_def vc_initial_def startConversation_def)

lemma click_starts: "vc_step d enc (Click None) vc_initial = vc_started"
  by (simp add: vc_step_def render_def vc_onClick_def vc_started_def vc_initial_def
      startConversation_def)

lemma step_open:
  "vc_step d enc (Open None) vc_started =
     vc_started\<lparr>streams := [True], streamRef := Some 0, contexts := [Running, Running],
       audioContextRef := Some 1, nodes := [True, True], sourceRef := Some 0,
       scriptProcessorRef := Some 1\<rparr>"
  by (simp add: vc_started_value vc_step_def render_def vc_onopen_def)

lemma va_open_value:
  "va_open =
     \<lparr>sessions = [\<lparr>session_closed = False, realtime_inputs = []\<rparr>], streams = [True],
      contexts = [Running], nodes = [True, True], sources = [],
      intervals = [\<lparr>active = True, period_ms = 1000\<rparr>],
      va_isLive = True, va_error = None, va_intervalRef = Some 0, va_sessionPromiseRef = Some 0,
      va_streamRef = Some 0, va_audioContextRef = Some 0, va_scriptProcessorRef = Some 1,
      va_pending = 0\<rparr>"
  by (simp add: va_open_def va_initial_def startSession_def startSession_begin_def
      startSession_resume_def va_onopen_def Let_def)

lemma audio_message_audio_only: "audio_only audio_message \<and> payload audio_message = ''AAA=''"
  by (simp add: audio_only_def payload_def base64Audio_def audio_message_def no_content_def)

lemma vc_playing_value:
  "vc_playing =
     \<lparr>sessions = [\<lparr>session_closed = False, realtime_inputs = []\<rparr>], streams = [True],
      contexts = [Running, Running], nodes = [True, True],
      sources = [\<lparr>start_time = Some 0, duration = 1, stopped = False, ended = False\<rparr>],
      intervals = [],
      mounted = True, isLive = True, transcriptions = [], error = None,
      sessionPromiseRef = Some 0, streamRef = Some 0, audioContextRef = Some 1,
      scriptProcessorRef = Some 1, sourceRef = Some 0, outputAudioContextRef = Some 0,
      nextStartTimeRef = Finite 1, playingSources = [0],
      currentInputTranscription = [], currentOutputTranscription = []\<rparr>"
proof -
  let ?st = "vc_started\<lparr>streams := [True], streamRef := Some 0, contexts := [Running, Running],
       audioContextRef := Some 1, nodes := [True, True], sourceRef := Some 0,
       scriptProcessorRef := Some 1\<rparr>"
  have m: "vc_onmessage (\<lambda>_. 1) 0 audio_message ?st =
      (?st\<lparr>currentInputTranscription :=
                  currentInputTranscription ?st @ fragment (inputTranscription audio_message),
               currentOutputTranscription :=
                  currentOutputTranscription ?st @ fragment (outputTranscription audio_message),
               sources := sources ?st @
                  [\<lparr>start_time = Some (max 0 0), duration = 1, stopped = False, ended = False\<rparr>],
               nextStartTimeRef := js_add (max 0 0) 1,
               playingSources := playingSources ?st @ [length (sources ?st)]\<rparr>, None)"
    by (rule onmessage_audio_only) (simp_all add: audio_message_audio_only vc_started_value)
  let ?st' = "?st\<lparr>currentInputTranscription :=
                  currentInputTranscription ?st @ fragment (inputTranscription audio_message),
               currentOutputTranscription :=
                  currentOutputTranscription ?st @ fragment (outputTranscription audio_message),
               sources := sources ?st @
                  [\<lparr>start_time = Some (max 0 0), duration = 1, stopped = False, ended = False\<rparr>],
               nextStartTimeRef := js_add (max 0 0) 1,
               playingSources := playingSources ?st @ [length (sources ?st)]\<rparr>"
  have "vc_step (\<lambda>_. 1) (\<lambda>_. []) (Message 0 audio_message) ?st =
      render (fst (vc_handle (\<lambda>_. 1) (\<lambda>_. []) (Message 0 audio_message) ?st))"
    by (rule vc_step_mounted) (simp_all add: vc_started_value)
  also have "\<dots> = render ?st'"
    by (simp only: vc_handle.simps m fst_conv)
  also have "\<dots> = ?st'"
    by (rule render_empty) (simp add: vc_started_value)
  also have "\<dots> = ?st\<lparr>sources := [\<lparr>start_time = Some 0, duration = 1, stopped = False, ended = False\<rparr>],
           nextStartTimeRef := Finite 1, playingSources := [0]\<rparr>"
    by (simp add: vc_started_value audio_message_def no_content_def fragment_def)
  finally have "vc_step (\<lambda>_. 1) (\<lambda>_. []) (Message 0 audio_message) ?st =
      ?st\<lparr>sources := [\<lparr>start_time = Some 0, duration = 1, stopped = False, ended = False\<rparr>],
           nextStartTimeRef := Finite 1, playingSources := [0]\<rparr>" .
  then show ?thesis
    by (simp add: vc_playing_def click_starts step_open) (simp add: vc_started_value)
qed

lemma vc_playing_invariants: "sources_started vc_playing \<and> pending_tracked vc_playing"
  by (simp add: vc_playing_value sources_started_def pending_tracked_def pending_def)

section \<open>Transcript accumulation\<close>

lemma schedule_segment_frame:
  "transcriptions (fst (schedule_segment c d st)) = transcriptions st \<and>
   currentInputTranscription (fst (schedule_segment c d st)) = currentInputTranscription st \<and>
   currentOutputTranscription (fst (schedule_segment c d st)) = currentOutputTranscription st \<and>
   mounted (fst (schedule_segment c d st)) = mounted st \<and>
   isLive (fst (schedule_segment c d st)) = isLive st \<and>
   error (fst (schedule_segment c d st)) = error st"
  by (simp add: schedule_segment_def Let_def split: number.splits)

lemma content_transcript:
  "transcriptions (fst (vc_onmessage_content d c m st)) =
     transcriptions (vc_onmessage_transcript m st) \<and>
   currentInputTranscription (fst (vc_onmessage_content d c m st)) =
     currentInputTranscription (vc_onmessage_transcript m st) \<and>
   currentOutputTranscription (fst (vc_onmessage_content d c m st)) =
     currentOutputTranscription (vc_onmessage_transcript m st) \<and>
   mounted (fst (vc_onmessage_content d c m st)) = mounted st \<and>
   isLive (fst (vc_onmessage_content d c m st)) = isLive st \<and>
   error (fst (vc_onmessage_content d c m st)) = error st"
  by (simp add: vc_onmessage_content_def Let_def schedule_segment_frame transcript_unfold
      split: sum.splits option.splits)

lemma onmessage_transcript:
  "transcriptions (fst (vc_onmessage d c m st)) = transcriptions (vc_onmessage_transcript m st) \<and>
   currentInputTranscription (fst (vc_onmessage d c m st)) =
     currentInputTranscription (vc_onmessage_transcript m st) \<and>
   currentOutputTranscription (fst (vc_onmessage d c m st)) =
     currentOutputTranscription (vc_onmessage_transcript m st) \<and>
   mounted (fst (vc_onmessage d c m st)) = mounted st \<and>
   isLive (fst (vc_onmessage d c m st)) = isLive st \<and>
   error (fst (vc_onmessage d c m st)) = error st"
  using content_transcript [of d c m st]
  by (cases "vc_onmessage_content d c m st")
    (auto simp: vc_onmessage_def split: option.splits prod.splits)


lemma onmessage_turn:
  "turnComplete m \<Longrightarrow>
   transcriptions (fst (vc_onmessage d c m st)) = transcriptions st @ [\<lparr>user = [], model = []\<rparr>] \<and>
   currentInputTranscription (fst (vc_onmessage d c m st)) = [] \<and>
   currentOutputTranscription (fst (vc_onmessage d c m st)) = []"
  by (simp add: onmessage_transcript transcript_unfold)

lemma unmount_frame:
  "\<not> mounted (unmount st) \<and> transcriptions (unmount st) = transcriptions st \<and>
   isLive (unmount st) = isLive st \<and> error (unmount st) = error st"
  by (simp add: unmount_def frozen_def)

text \<open>
  C7. On a message with the turn-complete marker the transcript is to gain the pair of
  texts accumulated during the turn. The handler appends one entry and empties both
  buffers, but the entry holds two empty strings, whatever was accumulated: the updater
  that builds it reads the buffers after they were emptied. On a mounted component the
  entry is never shown: rendering it raises, and the component is removed.
\<close>

theorem turn_complete_appends_empty_pair:
  assumes "turnComplete message"
  shows "transcriptions (fst (vc_onmessage d now message st)) =
           transcriptions st @ [\<lparr>user = [], model = []\<rparr>] \<and>
         currentInputTranscription (fst (vc_onmessage d now message st)) = [] \<and>
         currentOutputTranscription (fst (vc_onmessage d now message st)) = [] \<and>
         (mounted st \<longrightarrow>
            \<not> mounted (vc_step d enc (Message now message) st) \<and>
            transcriptions (vc_step d enc (Message now message) st) =
              transcriptions st @ [\<lparr>user = [], model = []\<rparr>])"
proof -
  note turn = onmessage_turn [OF assms, of d now st]
  have "vc_step d enc (Message now message) st = unmount (fst (vc_onmessage d now message st))"
    if "mounted st"
    using that turn by (simp add: vc_step_def render_def)
  then show ?thesis
    using turn unmount_frame [of "fst (vc_onmessage d now message st)"] by simp
qed

theorem turn_complete_appends_empty_pair_witness:
  "turnComplete (no_content\<lparr>turnComplete := True\<rparr>) \<and>
   mounted (vc_run (\<lambda>_. 1) (\<lambda>_. [])
     [Click None, Message 0 (no_content\<lparr>inputTranscription := Some (Some ''hi'')\<rparr>),
      Message 1 (no_content\<lparr>outputTranscription := Some (Some ''hello'')\<rparr>)] vc_initial) \<and>
   currentInputTranscription (vc_run (\<lambda>_. 1) (\<lambda>_. [])
     [Click None, Message 0 (no_content\<lparr>inputTranscription := Some (Some ''hi'')\<rparr>),
      Message 1 (no_content\<lparr>outputTranscription := Some (Some ''hello'')\<rparr>)] vc_initial) = ''hi'' \<and>
   currentOutputTranscription (vc_run (\<lambda>_. 1) (\<lambda>_. [])
     [Click None, Message 0 (no_content\<lparr>inputTranscription := Some (Some ''hi'')\<rparr>),
      Message 1 (no_content\<lparr>outputTranscription := Some (Some ''hello'')\<rparr>)] vc_initial) = ''hello'' \<and>
   transcriptions (vc_step (\<lambda>_. 1) (\<lambda>_. []) (Message 2 (no_content\<lparr>turnComplete := True\<rparr>))
     (vc_run (\<lambda>_. 1) (\<lambda>_. [])
       [Click None, Message 0 (no_content\<lparr>inputTranscription := Some (Some ''hi'')\<rparr>),
        Message 1 (no_content\<lparr>outputTranscription := Some (Some ''hello'')\<rparr>)] vc_initial)) =
     [\<lparr>user = [], model = []\<rparr>] \<and>
   \<not> mounted (vc_step (\<lambda>_. 1) (\<lambda>_. []) (Message 2 (no_content\<lparr>turnComplete := True\<rparr>))
     (vc_run (\<lambda>_. 1) (\<lambda>_. [])
       [Click None, Message 0 (no_content\<lparr>inputTranscription := Some (Some ''hi'')\<rparr>),
        Message 1 (no_content\<lparr>outputTranscription := Some (Some ''hello'')\<rparr>)] vc_initial))"
proof -
  let ?hi = "no_content\<lparr>inputTranscription := Some (Some ''hi'')\<rparr>"
  let ?hello = "no_content\<lparr>outputTranscription := Some (Some ''hello'')\<rparr>"
  let ?turn = "no_content\<lparr>turnComplete := True\<rparr>"
  let ?st = "vc_run (\<lambda>_. 1) (\<lambda>_. []) [Click None, Message 0 ?hi, Message 1 ?hello] vc_initial"
  have m1: "vc_step (\<lambda>_. 1) (\<lambda>_. []) (Message 0 ?hi) vc_started =
      vc_started\<lparr>currentInputTranscription := ''hi''\<rparr>"
    by (simp add: vc_step_def render_def vc_onmessage_def vc_onmessage_content_def
        transcript_unfold base64Audio_def no_content_def fragment_def vc_started_value)
  have m2: "vc_step (\<lambda>_. 1) (\<lambda>_. []) (Message 1 ?hello) (vc_started\<lparr>currentInputTranscription := ''hi''\<rparr>) =
      vc_started\<lparr>currentInputTranscription := ''hi'', currentOutputTranscription := ''hello''\<rparr>"
    by (simp add: vc_step_def render_def vc_onmessage_def vc_onmessage_content_def
        transcript_unfold base64Audio_def no_content_def fragment_def vc_started_value)
  have st: "?st = vc_started\<lparr>currentInputTranscription := ''hi'', currentOutputTranscription := ''hello''\<rparr>"
    by (simp add: click_starts m1 m2)
  have a: "turnComplete ?turn" by simp
  have b: "mounted ?st" "currentInputTranscription ?st = ''hi''"
    "currentOutputTranscription ?st = ''hello''" "transcriptions ?st = []"
    unfolding st by (simp_all add: vc_started_value)
  from turn_complete_appends_empty_pair [OF a, of "\<lambda>_. 1" 2 ?st "\<lambda>_. []"] b(1)
  have "\<not> mounted (vc_step (\<lambda>_. 1) (\<lambda>_. []) (Message 2 ?turn) ?st)"
    "transcriptions (vc_step (\<lambda>_. 1) (\<lambda>_. []) (Message 2 ?turn) ?st) =
       transcriptions ?st @ [\<lparr>user = [], model = []\<rparr>]"
    by blast+
  then show ?thesis using a b by (simp only: append_Nil simp_thms)
qed

section \<open>Stopping the playback queue\<close>

lemma stop_each_closed_form:
  assumes "\<forall>i \<in> set is. i < length ss \<and> start_time (ss ! i) \<noteq> None"
  shows "snd (stop_each is ss) = None \<and>
         length (fst (stop_each is ss)) = length ss \<and>
         (\<forall>j < length ss. fst (stop_each is ss) ! j =
            (if j \<in> set is then (ss ! j)\<lparr>stopped := True\<rparr> else ss ! j))"
  using assms
proof (induction "is" arbitrary: ss)
  case Nil
  then show ?case by simp
next
  case (Cons i rest)
  let ?ss' = "ss[i := (ss ! i)\<lparr>stopped := True\<rparr>]"
  from Cons.prems have i: "i < length ss" "start_time (ss ! i) \<noteq> None" by simp_all
  then have step: "source_stop i ss = (?ss', None)" by (simp add: source_stop_def)
  have "\<forall>k \<in> set rest. k < length ?ss' \<and> start_time (?ss' ! k) \<noteq> None"
    using Cons.prems by (auto simp: nth_list_update)
  from Cons.IH [OF this] have IH:
    "snd (stop_each rest ?ss') = None"
    "length (fst (stop_each rest ?ss')) = length ss"
    "\<And>j. j < length ss \<Longrightarrow> fst (stop_each rest ?ss') ! j =
        (if j \<in> set rest then (?ss' ! j)\<lparr>stopped := True\<rparr> else ?ss' ! j)"
    by simp_all
  show ?case
    using IH(1,2) i(1) by (auto simp: step IH(3) nth_list_update)
qed

lemma pending_tracked_iff:
  "pending_tracked st \<longleftrightarrow>
   (\<forall>i < length (sources st). pending (sources st ! i) \<longrightarrow> i \<in> set (playingSources st))"
  by (auto simp: pending_tracked_def list_all_iff)

lemma sources_started_iff:
  "sources_started st \<longleftrightarrow>
   (\<forall>i \<in> set (playingSources st). i < length (sources st) \<and> start_time (sources st ! i) \<noteq> None)"
  by (simp add: sources_started_def list_all_iff)

lemma transcript_frame:
  "playingSources (vc_onmessage_transcript m st) = playingSources st"
  "sources (vc_onmessage_transcript m st) = sources st"
  "nextStartTimeRef (vc_onmessage_transcript m st) = nextStartTimeRef st"
  "outputAudioContextRef (vc_onmessage_transcript m st) = outputAudioContextRef st"
  "mounted (vc_onmessage_transcript m st) = mounted st"
  "isLive (vc_onmessage_transcript m st) = isLive st"
  "error (vc_onmessage_transcript m st) = error st"
  by (simp_all add: transcript_unfold)

lemma schedule_segment_invariants:
  assumes "sources_started st" and "pending_tracked st"
  shows "sources_started (fst (schedule_segment now d st)) \<and>
         pending_tracked (fst (schedule_segment now d st))"
  using assms
  by (auto simp: sources_started_iff pending_tracked_iff schedule_segment_def Let_def nth_append
       less_Suc_eq pending_def split: number.splits)

lemma schedule_segment_keeps:
  "set (playingSources st) \<subseteq> set (playingSources (fst (schedule_segment now d st))) \<and>
   length (sources st) \<le> length (sources (fst (schedule_segment now d st)))"
  by (auto simp: schedule_segment_def Let_def split: number.splits)

lemma content_invariants:
  assumes "sources_started st" and "pending_tracked st"
  shows "sources_started (fst (vc_onmessage_content d now m st)) \<and>
         pending_tracked (fst (vc_onmessage_content d now m st))"
proof -
  have t: "sources_started (vc_onmessage_transcript m st)"
    "pending_tracked (vc_onmessage_transcript m st)"
    using assms by (simp_all add: transcript_unfold sources_started_def pending_tracked_def)
  show ?thesis
    using t schedule_segment_invariants [OF t]
    by (simp add: vc_onmessage_content_def Let_def split: sum.splits option.splits)
qed

lemma content_keeps_sources:
  "set (playingSources st) \<subseteq> set (playingSources (fst (vc_onmessage_content d now m st))) \<and>
   length (sources st) \<le> length (sources (fst (vc_onmessage_content d now m st)))"
  using schedule_segment_keeps [of "vc_onmessage_transcript m st"]
  by (simp add: vc_onmessage_content_def Let_def transcript_frame split: sum.splits option.splits)

lemma stop_each_none_pending:
  assumes "sources_started st" and "pending_tracked st"
  shows "snd (stop_each (playingSources st) (sources st)) = None \<and>
         list_all (\<lambda>s. \<not> pending s) (fst (stop_each (playingSources st) (sources st))) \<and>
         (\<forall>i \<in> set (playingSources st). stopped (fst (stop_each (playingSources st) (sources st)) ! i))"
proof -
  let ?r = "stop_each (playingSources st) (sources st)"
  from assms(1) have pre: "\<forall>i \<in> set (playingSources st). i < length (sources st) \<and> start_time (sources st ! i) \<noteq> None"
    by (simp add: sources_started_iff)
  note cf = stop_each_closed_form [OF pre]
  have "\<not> pending (fst ?r ! j)" if "j < length (fst ?r)" for j
    using that cf assms(2) by (auto simp: pending_tracked_iff pending_def)
  then have "list_all (\<lambda>s. \<not> pending s) (fst ?r)"
    by (auto simp: list_all_length)
  moreover have "\<forall>i \<in> set (playingSources st). stopped (fst ?r ! i)"
    using cf pre by auto
  ultimately show ?thesis using cf by simp
qed

lemma onmessage_interrupted:
  assumes "interrupted message" and "snd (vc_onmessage_content d now message st) = None"
    and "sources_started st" and "pending_tracked st"
  shows "snd (vc_onmessage d now message st) = None \<and>
         playingSources (fst (vc_onmessage d now message st)) = [] \<and>
         nextStartTimeRef (fst (vc_onmessage d now message st)) = Finite 0 \<and>
         list_all (\<lambda>s. \<not> pending s) (sources (fst (vc_onmessage d now message st))) \<and>
         (\<forall>i \<in> set (playingSources st). stopped (sources (fst (vc_onmessage d now message st)) ! i))"
proof -
  obtain st4 where c: "vc_onmessage_content d now message st = (st4, None)"
    using assms(2) by (cases "vc_onmessage_content d now message st") simp
  have inv: "sources_started st4" "pending_tracked st4"
    using content_invariants [OF assms(3,4), of d now message] by (simp_all add: c)
  note stop = stop_each_none_pending [OF inv]
  have sub: "set (playingSources st) \<subseteq> set (playingSources st4)"
    using content_keeps_sources [of st d now message] by (simp add: c)
  obtain ss where ss: "stop_each (playingSources st4) (sources st4) = (ss, None)"
    using stop by (cases "stop_each (playingSources st4) (sources st4)") simp
  have res: "vc_onmessage d now message st =
      (st4\<lparr>sources := ss, playingSources := [], nextStartTimeRef := Finite 0\<rparr>, None)"
    using assms(1) by (simp add: vc_onmessage_def c ss)
  show ?thesis
    using stop sub by (auto simp: res ss)
qed

lemma onmessage_invariants:
  assumes "sources_started st" and "pending_tracked st"
  shows "sources_started (fst (vc_onmessage d now message st)) \<and>
         pending_tracked (fst (vc_onmessage d now message st))"
proof -
  let ?st4 = "fst (vc_onmessage_content d now message st)"
  have inv: "sources_started ?st4" "pending_tracked ?st4"
    using content_invariants [OF assms] by simp_all
  show ?thesis
  proof (cases "snd (vc_onmessage_content d now message st) = None \<and> interrupted message")
    case True
    from onmessage_interrupted [OF True [THEN conjunct2] True [THEN conjunct1] assms]
    show ?thesis
      by (auto simp: sources_started_def pending_tracked_iff list_all_length)
  next
    case False
    then have "fst (vc_onmessage d now message st) = ?st4"
      by (cases "vc_onmessage_content d now message st")
        (auto simp: vc_onmessage_def split: option.splits)
    then show ?thesis using inv by simp
  qed
qed

lemma onmessage_no_parts:
  assumes "modelTurn message = Some NoParts"
  shows "vc_onmessage d now message st = (vc_onmessage_transcript message st, Some TypeError)"
  using assms by (simp add: vc_onmessage_def vc_onmessage_content_def base64Audio_def)

text \<open>
  C6. A message with the interruption marker is to stop every node that is scheduled or
  playing, empty the playback queue and reset the playback offset. The handler does so
  only if it reaches the interruption block (lemma \<open>onmessage_interrupted\<close>). It reads the
  inline audio first, by \<open>modelTurn?.parts[0]\<close>: when the message carries a model turn
  without parts, that raises \<open>TypeError\<close> and the handler ends there. The queue, the
  nodes and the playback offset stay as they were, and a node that was pending still is.
\<close>

theorem interrupted_with_partless_turn_stops_nothing:
  assumes "interrupted message" and "modelTurn message = Some NoParts"
  shows "snd (vc_onmessage d now message st) = Some TypeError \<and>
         playingSources (fst (vc_onmessage d now message st)) = playingSources st \<and>
         sources (fst (vc_onmessage d now message st)) = sources st \<and>
         nextStartTimeRef (fst (vc_onmessage d now message st)) = nextStartTimeRef st \<and>
         (\<forall>i \<in> set (playingSources st).
            pending (sources st ! i) \<longrightarrow> pending (sources (fst (vc_onmessage d now message st)) ! i))"
  by (simp add: onmessage_no_parts [OF assms(2)] transcript_unfold)

theorem interrupted_with_partless_turn_stops_nothing_witness:
  "interrupted (no_content\<lparr>modelTurn := Some NoParts, interrupted := True\<rparr>) \<and>
   modelTurn (no_content\<lparr>modelTurn := Some NoParts, interrupted := True\<rparr>) = Some NoParts \<and>
   playingSources vc_playing = [0] \<and> pending (sources vc_playing ! 0) \<and>
   nextStartTimeRef vc_playing = Finite 1 \<and>
   snd (vc_onmessage (\<lambda>_. 1) (1 / 2) (no_content\<lparr>modelTurn := Some NoParts, interrupted := True\<rparr>)
     vc_playing) = Some TypeError \<and>
   playingSources (fst (vc_onmessage (\<lambda>_. 1) (1 / 2)
     (no_content\<lparr>modelTurn := Some NoParts, interrupted := True\<rparr>) vc_playing)) = [0] \<and>
   pending (sources (fst (vc_onmessage (\<lambda>_. 1) (1 / 2)
     (no_content\<lparr>modelTurn := Some NoParts, interrupted := True\<rparr>) vc_playing)) ! 0) \<and>
   nextStartTimeRef (fst (vc_onmessage (\<lambda>_. 1) (1 / 2)
     (no_content\<lparr>modelTurn := Some NoParts, interrupted := True\<rparr>) vc_playing)) = Finite 1"
proof -
  let ?m = "no_content\<lparr>modelTurn := Some NoParts, interrupted := True\<rparr>"
  have a: "interrupted ?m" "modelTurn ?m = Some NoParts" by simp_all
  have b: "playingSources vc_playing = [0]" "pending (sources vc_playing ! 0)"
    "nextStartTimeRef vc_playing = Finite 1"
    by (simp_all add: vc_playing_value pending_def)
  note r = interrupted_with_partless_turn_stops_nothing [OF a, of "\<lambda>_. 1" "1 / 2" vc_playing]
  have c1: "snd (vc_onmessage (\<lambda>_. 1) (1 / 2) ?m vc_playing) = Some TypeError"
    using r by (rule conjunct1)
  have "playingSources (fst (vc_onmessage (\<lambda>_. 1) (1 / 2) ?m vc_playing)) = playingSources vc_playing"
    using r [THEN conjunct2] by (rule conjunct1)
  then have c2: "playingSources (fst (vc_onmessage (\<lambda>_. 1) (1 / 2) ?m vc_playing)) = [0]"
    by (simp only: b)
  have "nextStartTimeRef (fst (vc_onmessage (\<lambda>_. 1) (1 / 2) ?m vc_playing)) =
        nextStartTimeRef vc_playing"
    using r [THEN conjunct2, THEN conjunct2, THEN conjunct2] by (rule conjunct1)
  then have c3: "nextStartTimeRef (fst (vc_onmessage (\<lambda>_. 1) (1 / 2) ?m vc_playing)) = Finite 1"
    by (simp only: b)
  have "\<forall>i \<in> set (playingSources vc_playing).
            pending (sources vc_playing ! i) \<longrightarrow>
            pending (sources (fst (vc_onmessage (\<lambda>_. 1) (1 / 2) ?m vc_playing)) ! i)"
    using r [THEN conjunct2, THEN conjunct2, THEN conjunct2] by (rule conjunct2)
  then have "pending (sources vc_playing ! 0) \<longrightarrow>
            pending (sources (fst (vc_onmessage (\<lambda>_. 1) (1 / 2) ?m vc_playing)) ! 0)"
    unfolding b by simp
  then have d: "pending (sources (fst (vc_onmessage (\<lambda>_. 1) (1 / 2) ?m vc_playing)) ! 0)"
    using b(2) by (rule mp)
  note c = c1 c2 c3
  show ?thesis using a b c d by (intro conjI)
qed

section \<open>Stopping a session\<close>

lemma length_modify [simp]: "length (modify i f xs) = length xs"
  by (simp add: modify_def)

lemma nth_modify: "j < length xs \<Longrightarrow> modify i f xs ! j = (if j = i then f (xs ! j) else xs ! j)"
  by (simp add: modify_def)

lemma stopConversation_unfold:
  "stopConversation st =
    (let w = st\<lparr>sessions := (case sessionPromiseRef st of None \<Rightarrow> sessions st
                               | Some s \<Rightarrow> session_close s (sessions st)),
                 sessionPromiseRef := None,
                 streams := (case streamRef st of None \<Rightarrow> streams st
                               | Some m \<Rightarrow> tracks_stop m (streams st)),
                 streamRef := None,
                 nodes := (let ns = (case scriptProcessorRef st of None \<Rightarrow> nodes st
                               | Some n \<Rightarrow> disconnect n (nodes st))
                           in case sourceRef st of None \<Rightarrow> ns | Some n \<Rightarrow> disconnect n ns),
                 contexts := close_unless_closed (outputAudioContextRef st)
                                (close_unless_closed (audioContextRef st) (contexts st))\<rparr>
     in case stop_each (playingSources st) (sources st) of
           (ss, Some e) \<Rightarrow> (w\<lparr>sources := ss\<rparr>, Some e)
         | (ss, None) \<Rightarrow>
             (w\<lparr>sources := ss, playingSources := [], nextStartTimeRef := Finite 0,
                isLive := False\<rparr>,
              None))"
  by (cases "sessionPromiseRef st"; cases "streamRef st"; cases "scriptProcessorRef st";
      cases "sourceRef st")
    (simp_all add: stopConversation_def Let_def split: prod.splits option.splits)

lemma length_close_unless_closed [simp]: "length (close_unless_closed r cs) = length cs"
  by (simp add: close_unless_closed_def split: option.splits)

lemma nth_close_unless_closed:
  "j < length cs \<Longrightarrow> close_unless_closed r cs ! j = (if r = Some j then Closed else cs ! j)"
  by (auto simp: close_unless_closed_def nth_list_update split: option.splits)


lemma length_disconnect [simp]: "length (disconnect i ns) = length ns"
  by (simp add: disconnect_def)

lemma nth_disconnect: "j < length ns \<Longrightarrow> disconnect i ns ! j = (j \<noteq> i \<and> ns ! j)"
  by (simp add: disconnect_def nth_modify)




lemma stopConversation_no_exception:
  assumes "sources_started st"
  shows "snd (stopConversation st) = None"
proof -
  from assms have "\<forall>i \<in> set (playingSources st). i < length (sources st) \<and> start_time (sources st ! i) \<noteq> None"
    by (simp add: sources_started_iff)
  from stop_each_closed_form [OF this] show ?thesis
    by (cases "stop_each (playingSources st) (sources st)")
      (auto simp: stopConversation_unfold Let_def split: option.splits)
qed

lemma stopConversation_result:
  assumes "sources_started st" and "pending_tracked st"
  shows "\<not> isLive (fst (stopConversation st)) \<and>
         sessionPromiseRef (fst (stopConversation st)) = None \<and>
         streamRef (fst (stopConversation st)) = None \<and>
         \<not> holds_live_stream (streamRef st) (streams (fst (stopConversation st))) \<and>
         playingSources (fst (stopConversation st)) = [] \<and>
         list_all (\<lambda>s. \<not> pending s) (sources (fst (stopConversation st))) \<and>
         nextStartTimeRef (fst (stopConversation st)) = Finite 0"
proof -
  note stop = stop_each_none_pending [OF assms]
  obtain ss where ss: "stop_each (playingSources st) (sources st) = (ss, None)"
    using stop by (cases "stop_each (playingSources st) (sources st)") simp
  show ?thesis
    using stop
    by (auto simp: stopConversation_unfold Let_def ss holds_live_stream_def tracks_stop_def
        nth_modify split: option.splits)
qed




lemma stopSession_unfold:
  "stopSession v =
     v\<lparr>intervals := (case va_intervalRef v of None \<Rightarrow> intervals v
                       | Some t \<Rightarrow> clearInterval t (intervals v)),
       sessions := (case va_sessionPromiseRef v of None \<Rightarrow> sessions v
                      | Some s \<Rightarrow> session_close s (sessions v)),
       streams := (case va_streamRef v of None \<Rightarrow> streams v
                     | Some m \<Rightarrow> tracks_stop m (streams v)),
       nodes := (case va_scriptProcessorRef v of None \<Rightarrow> nodes v
                   | Some n \<Rightarrow> disconnect n (nodes v)),
       contexts := close_unless_closed (va_audioContextRef v) (contexts v),
       va_isLive := False\<rparr>"
  by (cases "va_intervalRef v"; cases "va_sessionPromiseRef v"; cases "va_streamRef v";
      cases "va_scriptProcessorRef v")
    (simp_all add: stopSession_def Let_def)



lemma stopConversation_torn_down:
  assumes "sources_started st" and "pending_tracked st"
  shows "torn_down st (fst (stopConversation st)) \<and>
         error (fst (stopConversation st)) = error st"
proof -
  note stop = stop_each_none_pending [OF assms]
  obtain ss where ss: "stop_each (playingSources st) (sources st) = (ss, None)"
    using stop by (cases "stop_each (playingSources st) (sources st)") simp
  have nodes: "disconnected_ref r2 (case r2 of None \<Rightarrow>
                   (case r1 of None \<Rightarrow> ns | Some n \<Rightarrow> disconnect n ns)
                 | Some n' \<Rightarrow> disconnect n' (case r1 of None \<Rightarrow> ns | Some n \<Rightarrow> disconnect n ns))"
    "disconnected_ref r1 (case r2 of None \<Rightarrow>
                   (case r1 of None \<Rightarrow> ns | Some n \<Rightarrow> disconnect n ns)
                 | Some n' \<Rightarrow> disconnect n' (case r1 of None \<Rightarrow> ns | Some n \<Rightarrow> disconnect n ns))"
    for r1 r2 ns
    by (auto simp: disconnected_ref_def nth_disconnect split: option.splits)
  have ctxs: "closed_ref r1 (close_unless_closed r2 (close_unless_closed r1 cs))"
    "closed_ref r2 (close_unless_closed r2 (close_unless_closed r1 cs))" for r1 r2 cs
    by (auto simp: closed_ref_def nth_close_unless_closed split: option.splits)
  have sess: "session_closed_ref r (case r of None \<Rightarrow> xs | Some s \<Rightarrow> session_close s xs)"
    "length (case r of None \<Rightarrow> xs | Some s \<Rightarrow> session_close s xs) = length xs" for r xs
    by (auto simp: session_closed_ref_def session_close_def nth_modify split: option.splits)
  have strm: "\<not> holds_live_stream r (case r of None \<Rightarrow> ms | Some m \<Rightarrow> tracks_stop m ms)" for r ms
    by (auto simp: holds_live_stream_def tracks_stop_def nth_modify split: option.splits)
  show ?thesis
    using stop nodes ctxs sess strm
    by (simp add: torn_down_def stopConversation_unfold Let_def ss)
qed

lemma stopSession_torn_down:
  "va_torn_down v (stopSession v) \<and> va_error (stopSession v) = va_error v"
  by (auto simp: va_torn_down_def stopSession_unfold cleared_ref_def session_closed_ref_def
      holds_live_stream_def disconnected_ref_def closed_ref_def clearInterval_def
      session_close_def tracks_stop_def nth_disconnect nth_close_unless_closed nth_modify
      split: option.splits)

lemma torn_down_cong:
  "sessionPromiseRef st2 = sessionPromiseRef st1 \<Longrightarrow> streamRef st2 = streamRef st1 \<Longrightarrow>
   scriptProcessorRef st2 = scriptProcessorRef st1 \<Longrightarrow> sourceRef st2 = sourceRef st1 \<Longrightarrow>
   audioContextRef st2 = audioContextRef st1 \<Longrightarrow>
   outputAudioContextRef st2 = outputAudioContextRef st1 \<Longrightarrow>
   length (sessions st2) = length (sessions st1) \<Longrightarrow>
   torn_down st2 st' = torn_down st1 st'"
  by (simp add: torn_down_def)

lemma va_torn_down_cong:
  "va_intervalRef v2 = va_intervalRef v1 \<Longrightarrow> va_sessionPromiseRef v2 = va_sessionPromiseRef v1 \<Longrightarrow>
   va_streamRef v2 = va_streamRef v1 \<Longrightarrow> va_scriptProcessorRef v2 = va_scriptProcessorRef v1 \<Longrightarrow>
   va_audioContextRef v2 = va_audioContextRef v1 \<Longrightarrow>
   length (sessions v2) = length (sessions v1) \<Longrightarrow>
   va_torn_down v2 v' = va_torn_down v1 v'"
  by (simp add: va_torn_down_def)


lemma stopConversation_frame:
  "error (fst (stopConversation st)) = error st \<and>
   transcriptions (fst (stopConversation st)) = transcriptions st \<and>
   mounted (fst (stopConversation st)) = mounted st \<and>
   currentInputTranscription (fst (stopConversation st)) = currentInputTranscription st \<and>
   currentOutputTranscription (fst (stopConversation st)) = currentOutputTranscription st \<and>
   length (sessions (fst (stopConversation st))) = length (sessions st) \<and>
   length (streams (fst (stopConversation st))) = length (streams st) \<and>
   length (contexts (fst (stopConversation st))) = length (contexts st) \<and>
   length (nodes (fst (stopConversation st))) = length (nodes st) \<and>
   (\<forall>i < length (streams st). streamRef st \<noteq> Some i \<longrightarrow>
      streams (fst (stopConversation st)) ! i = streams st ! i) \<and>
   (\<forall>i < length (sessions st). sessionPromiseRef st \<noteq> Some i \<longrightarrow>
      sessions (fst (stopConversation st)) ! i = sessions st ! i)"
  by (cases "stop_each (playingSources st) (sources st)")
    (auto simp: stopConversation_unfold Let_def session_close_def tracks_stop_def nth_modify
      split: option.splits)

lemma stopSession_frame:
  "va_error (stopSession v) = va_error v \<and>
   va_pending (stopSession v) = va_pending v \<and>
   length (streams (stopSession v)) = length (streams v) \<and>
   (\<forall>i < length (streams v). va_streamRef v \<noteq> Some i \<longrightarrow>
      streams (stopSession v) ! i = streams v ! i) \<and>
   (\<forall>i < length (sessions v). va_sessionPromiseRef v \<noteq> Some i \<longrightarrow>
      sessions (stopSession v) ! i = sessions v ! i)"
  by (auto simp: stopSession_unfold session_close_def tracks_stop_def nth_modify
      split: option.splits)





section \<open>Scheduling inbound audio\<close>


lemma length_timeline [simp]: "length (timeline p xs) = length xs"
  by (induction p xs rule: timeline.induct) simp_all









section \<open>Reachable states\<close>

lemma stopConversation_queue:
  assumes "sources_started st" and "pending_tracked st"
  shows "sources_started (fst (stopConversation st)) \<and> pending_tracked (fst (stopConversation st))"
proof -
  note r = stopConversation_result [OF assms]
  have "pending_tracked (fst (stopConversation st))"
    using r by (auto simp: pending_tracked_iff list_all_length)
  moreover have "sources_started (fst (stopConversation st))"
    using r by (simp add: sources_started_def)
  ultimately show ?thesis by simp
qed

lemma queue_cong:
  "sources st' = sources st \<Longrightarrow> playingSources st' = playingSources st \<Longrightarrow>
   sources_started st' = sources_started st \<and> pending_tracked st' = pending_tracked st"
  by (simp add: sources_started_def pending_tracked_def)

lemma startConversation_queue:
  assumes "sources_started st" and "pending_tracked st"
  shows "sources_started (fst (startConversation thrown st)) \<and>
         pending_tracked (fst (startConversation thrown st))"
proof -
  have "sources_started (st\<lparr>isLive := True, error := None, transcriptions := [],
          currentInputTranscription := [], currentOutputTranscription := [], error := e\<rparr>) \<and>
        pending_tracked (st\<lparr>isLive := True, error := None, transcriptions := [],
          currentInputTranscription := [], currentOutputTranscription := [], error := e\<rparr>)" for e
    using assms by (simp add: sources_started_def pending_tracked_def)
  then show ?thesis
    using assms stopConversation_queue
    by (auto simp: startConversation_def Let_def sources_started_def pending_tracked_def
        split: option.splits)
qed

lemma onended_queue:
  assumes "sources_started st" and "pending_tracked st"
  shows "sources_started (vc_onended source st) \<and> pending_tracked (vc_onended source st)"
  using assms
  by (auto simp: sources_started_iff pending_tracked_iff vc_onended_def nth_modify pending_def)

lemma handle_queue:
  assumes "sources_started st" and "pending_tracked st"
  shows "sources_started (fst (vc_handle d enc e st)) \<and>
         pending_tracked (fst (vc_handle d enc e st))"
proof (cases e)
  case (Click thrown)
  then show ?thesis
    using startConversation_queue [OF assms] stopConversation_queue [OF assms]
    by (simp add: vc_onClick_def)
next
  case (Open denied)
  then show ?thesis
    using assms
    by (auto simp: vc_onopen_def sources_started_def pending_tracked_def split: option.splits)
next
  case (Message now m)
  then show ?thesis using onmessage_invariants [OF assms] by simp
next
  case (AudioProcess inputData)
  then show ?thesis
    using assms
    by (auto simp: vc_onaudioprocess_def sources_started_def pending_tracked_def
        split: option.splits)
next
  case (Ended source)
  then show ?thesis using onended_queue [OF assms] by simp
next
  case (Error type)
  have "sources_started (st\<lparr>error := Some (''Live session error: '' @ type)\<rparr>)"
    "pending_tracked (st\<lparr>error := Some (''Live session error: '' @ type)\<rparr>)"
    using assms by (simp_all add: sources_started_def pending_tracked_def)
  from stopConversation_queue [OF this] show ?thesis
    by (simp add: Error vc_onerror_def)
next
  case Close
  then show ?thesis using stopConversation_queue [OF assms] by (simp add: vc_onclose_def)
next
  case Unmount
  then show ?thesis using stopConversation_queue [OF assms] by simp
qed

lemma handle_mounted: "mounted (fst (vc_handle d enc e st)) = mounted st"
proof (cases e)
  case (Click thrown)
  then show ?thesis
    using stopConversation_frame
    by (simp add: vc_onClick_def startConversation_def Let_def split: option.splits)
next
  case (Message now m)
  then show ?thesis by (simp add: onmessage_transcript)
qed (simp_all add: stopConversation_frame vc_onopen_def vc_onaudioprocess_def vc_onended_def
      vc_onerror_def vc_onclose_def split: option.splits)

lemma frozen_queue:
  "sources_started (frozen st st') = sources_started st' \<and>
   pending_tracked (frozen st st') = pending_tracked st'"
  by (simp add: frozen_def sources_started_def pending_tracked_def)

lemma unmount_queue:
  assumes "sources_started st" and "pending_tracked st"
  shows "sources_started (unmount st) \<and> pending_tracked (unmount st) \<and> \<not> mounted (unmount st)"
  using stopConversation_queue [OF assms]
  by (simp add: unmount_def frozen_def sources_started_def pending_tracked_def)

lemma render_invariant:
  assumes "sources_started st" and "pending_tracked st"
  shows "invariant (render st)"
  using assms unmount_queue [OF assms] by (simp add: render_def invariant_def)

lemma vc_step_invariant:
  assumes "invariant st"
  shows "invariant (vc_step d enc e st)"
proof -
  from assms have a: "sources_started st" "pending_tracked st"
    by (simp_all add: invariant_def)
  note h = handle_queue [OF a, of d enc e]
  show ?thesis
  proof (cases "mounted st")
    case True
    show ?thesis
    proof (cases "e = Unmount")
      case True
      then show ?thesis
        using \<open>mounted st\<close> unmount_queue [OF a] by (simp add: vc_step_def invariant_def)
    next
      case False
      then show ?thesis
        using vc_step_mounted [OF \<open>mounted st\<close> False, of d enc] h render_invariant by simp
    qed
  next
    case False
    have "invariant (frozen st (fst (vc_handle d enc e st)))"
      using h False handle_mounted [of d enc e st]
      by (simp add: invariant_def frozen_queue) (simp add: frozen_def)
    then show ?thesis
      using False assms by (cases e) (simp_all add: vc_step_def)
  qed
qed

lemma vc_run_invariant:
  "invariant st \<Longrightarrow> invariant (vc_run d enc es st)"
  by (induction es arbitrary: st) (simp_all add: vc_step_invariant)

lemma initial_invariant: "invariant vc_initial"
  by (simp add: invariant_def sources_started_def pending_tracked_def vc_initial_def)

lemma reachable_invariant:
  "sources_started (vc_run d enc es vc_initial) \<and> pending_tracked (vc_run d enc es vc_initial) \<and>
   (mounted (vc_run d enc es vc_initial) \<longrightarrow> transcriptions (vc_run d enc es vc_initial) = [])"
  using vc_run_invariant [OF initial_invariant] by (simp add: invariant_def)

section \<open>The transcript\<close>








section \<open>Starting a session\<close>

lemma startConversation_guard:
  "isLive st \<Longrightarrow> startConversation thrown st = (st, None)"
  by (simp add: startConversation_def)

lemma button_stops_a_live_panel:
  "(isLive st \<longrightarrow> vc_onClick thrown st = stopConversation st) \<and>
   (va_isLive v \<longrightarrow> va_onClick v = stopSession v)"
  by (simp add: vc_onClick_def va_onClick_def)

lemma stopSession_initial:
  "stopSession (va_initial\<lparr>va_isLive := True, va_pending := n\<rparr>) = va_initial\<lparr>va_pending := n\<rparr>"
  by (simp add: stopSession_unfold va_initial_def close_unless_closed_def)

text \<open>
  C3. A panel is to have at most one session open, and a start on a panel whose session
  is open is to acquire no second capture stream. The voice chat's \<open>startConversation\<close>
  returns at once on a live panel (lemma \<open>startConversation_guard\<close>), and the button of
  either panel calls the stop function on a live panel (lemma
  \<open>button_stops_a_live_panel\<close>). \<open>startSession\<close> of the visual assistant has no guard of
  its own, and it sets the panel live before it awaits \<open>getUserMedia\<close>. A click on the
  stop button while that request is pending finds nothing to release and sets the panel
  idle; the next click starts a second call. When both requests are granted, two streams
  are live and two sessions are open. The refs point to the second pair, so a later stop
  releases that pair only.
\<close>

theorem start_while_request_pending_opens_second_session:
  "va_pending (va_run enc [VClick, VClick, VClick] va_initial) = 2 \<and>
   va_isLive (va_run enc [VClick, VClick, VClick] va_initial) \<and>
   streams (va_run enc [VClick, VClick, VClick, VMedia None None, VMedia None None] va_initial) =
     [True, True] \<and>
   map session_closed
     (sessions (va_run enc [VClick, VClick, VClick, VMedia None None, VMedia None None] va_initial)) =
     [False, False] \<and>
   va_streamRef (va_run enc [VClick, VClick, VClick, VMedia None None, VMedia None None] va_initial) =
     Some 1 \<and>
   va_sessionPromiseRef
     (va_run enc [VClick, VClick, VClick, VMedia None None, VMedia None None] va_initial) = Some 1 \<and>
   streams (va_run enc [VClick, VClick, VClick, VMedia None None, VMedia None None, VClick] va_initial) =
     [True, False] \<and>
   map session_closed
     (sessions (va_run enc [VClick, VClick, VClick, VMedia None None, VMedia None None, VClick]
        va_initial)) = [False, True]"
proof -
  let ?s1 = "va_initial\<lparr>va_isLive := True, va_pending := 1\<rparr>"
  let ?s2 = "va_initial\<lparr>va_pending := 1\<rparr>"
  let ?s3 = "va_initial\<lparr>va_isLive := True, va_pending := 2\<rparr>"
  let ?s4 = "?s3\<lparr>va_pending := 1, streams := [True], va_streamRef := Some 0,
      sessions := [\<lparr>session_closed = False, realtime_inputs = []\<rparr>],
      va_sessionPromiseRef := Some 0\<rparr>"
  let ?s5 = "?s3\<lparr>va_pending := 0, streams := [True, True], va_streamRef := Some 1,
      sessions := [\<lparr>session_closed = False, realtime_inputs = []\<rparr>,
                   \<lparr>session_closed = False, realtime_inputs = []\<rparr>],
      va_sessionPromiseRef := Some 1\<rparr>"
  have 1: "va_step enc VClick va_initial = ?s1"
    by (simp add: va_onClick_def startSession_begin_def va_initial_def)
  have 2: "va_step enc VClick ?s1 = ?s2"
    by (simp add: va_onClick_def stopSession_initial)
  have 3: "va_step enc VClick ?s2 = ?s3"
    by (simp add: va_onClick_def startSession_begin_def va_initial_def)
  have 4: "va_step enc (VMedia None None) ?s3 = ?s4"
    by (simp add: startSession_resume_def va_initial_def)
  have 5: "va_step enc (VMedia None None) ?s4 = ?s5"
    by (simp add: startSession_resume_def va_initial_def)
  have 6: "va_step enc VClick ?s5 =
      ?s5\<lparr>va_isLive := False, streams := [True, False],
          sessions := [\<lparr>session_closed = False, realtime_inputs = []\<rparr>,
                       \<lparr>session_closed = True, realtime_inputs = []\<rparr>]\<rparr>"
    by (simp add: va_onClick_def stopSession_unfold va_initial_def session_close_def
        tracks_stop_def close_unless_closed_def modify_def)
  show ?thesis
    by (simp only: va_run.simps 1 2 3 4 5 6) (simp add: va_initial_def)
qed

section \<open>Outbound audio frames\<close>

lemma sint_ToInt16: "sint (ToInt16 x) = (truncated x + 32768) mod 65536 - 32768"
  by (simp add: ToInt16_def sint_sbintrunc' signed_take_bit_eq_take_bit_shift take_bit_eq_mod)

lemma uint_ToInt16: "uint (ToInt16 x) = truncated x mod 65536"
  by (simp add: ToInt16_def uint_word_of_int)

lemma truncated_in_range:
  assumes "- 1 \<le> x" and "x < 1"
  shows "- 32768 \<le> truncated (x * 32768) \<and> truncated (x * 32768) < 32768"
proof -
  have lo: "- 32768 \<le> x * 32768" and hi: "x * 32768 < 32768" using assms by simp_all
  have "- 32768 \<le> truncated (x * 32768)"
    using lo by (auto simp: truncated_def le_floor_iff le_ceiling_iff)
  moreover have "truncated (x * 32768) < 32768"
    using hi by (auto simp: truncated_def floor_less_iff ceiling_less_iff)
  ultimately show ?thesis by simp
qed

lemma ToInt16_in_range:
  assumes "- 1 \<le> x" and "x < 1"
  shows "sint (ToInt16 (x * 32768)) = truncated (x * 32768)"
  using truncated_in_range [OF assms] by (simp add: sint_ToInt16)

text \<open>Outside that range the conversion wraps: the sample 1 becomes the integer -32768.\<close>

lemma ToInt16_full_scale_wraps: "sint (ToInt16 (1 * 32768)) = - 32768"
  by (simp add: sint_ToInt16 truncated_def)

lemma low_byte: "uint (ucast (w :: 16 word) :: 8 word) = uint w mod 256"
  by (simp add: take_bit_eq_mod unsigned_ucast_eq)

lemma high_byte: "uint (drop_bit 8 (w :: 16 word)) mod 256 = uint w div 256"
proof -
  have "uint w < 65536" using uint_lt2p [of w] by simp
  then have "uint w div 256 < 256" by simp
  moreover have "0 \<le> uint w div 256" using uint_ge_0 [of w] by (simp add: pos_imp_zdiv_nonneg_iff)
  ultimately show ?thesis
    by (simp add: unsigned_drop_bit_eq drop_bit_eq_div take_bit_eq_mod uint_div)
qed

lemma length_buffer_bytes: "length (buffer_bytes ws) = 2 * length ws"
  by (induction ws) (simp_all add: buffer_bytes_def)

lemma nth_buffer_bytes:
  "i < length ws \<Longrightarrow>
   buffer_bytes ws ! (2 * i) = ucast (ws ! i) \<and>
   buffer_bytes ws ! (2 * i + 1) = ucast (drop_bit 8 (ws ! i))"
proof (induction ws arbitrary: i)
  case Nil
  then show ?case by simp
next
  case (Cons w ws)
  show ?case
  proof (cases i)
    case 0
    then show ?thesis by (simp add: buffer_bytes_def)
  next
    case (Suc j)
    then have "j < length ws" using Cons.prems by simp
    from Cons.IH [OF this] show ?thesis
      by (simp add: Suc buffer_bytes_def)
  qed
qed

lemma frame_bytes:
  assumes "i < length inputData"
  shows "uint (buffer_bytes (pcm16 inputData) ! (2 * i)) =
           truncated (inputData ! i * 32768) mod 65536 mod 256 \<and>
         uint (buffer_bytes (pcm16 inputData) ! (2 * i + 1)) =
           truncated (inputData ! i * 32768) mod 65536 div 256"
proof -
  have i: "i < length (pcm16 inputData)" using assms by (simp add: pcm16_def)
  have w: "pcm16 inputData ! i = ToInt16 (inputData ! i * 32768)"
    using assms by (simp add: pcm16_def)
  show ?thesis
    using nth_buffer_bytes [OF i] by (simp add: w low_byte high_byte uint_ToInt16)
qed

lemma vc_onaudioprocess_sends:
  "sessionPromiseRef st = Some s \<Longrightarrow> s < length (sessions st) \<Longrightarrow>
   vc_onaudioprocess encode inputData st =
     st\<lparr>sessions := (sessions st)
           [s := (sessions st ! s)\<lparr>realtime_inputs :=
                   realtime_inputs (sessions st ! s) @ [pcmBlob encode inputData]\<rparr>]\<rparr>"
  by (simp add: vc_onaudioprocess_def sendRealtimeInput_def modify_def)

lemma va_onaudioprocess_sends:
  "va_sessionPromiseRef v = Some s \<Longrightarrow> s < length (sessions v) \<Longrightarrow>
   va_onaudioprocess encode inputData v =
     v\<lparr>sessions := (sessions v)
           [s := (sessions v ! s)\<lparr>realtime_inputs :=
                   realtime_inputs (sessions v ! s) @ [pcmBlob encode inputData]\<rparr>]\<rparr>"
  by (simp add: va_onaudioprocess_def sendRealtimeInput_def modify_def)

text \<open>
  C8, amended. Every captured frame is converted sample by sample: sample \<open>x\<close> becomes
  \<open>x * 32768\<close> truncated towards zero and reduced into the range of 16-bit integers
  modulo \<open>2 ^ 16\<close>. For \<open>-1 \<le> x < 1\<close> that is \<open>x * 32768\<close> truncated towards zero. The
  blob holds, under the type \<open>audio/pcm;rate=16000\<close>, the encoding of two bytes per
  sample, the low byte of the integer and then its high byte. In both panels the handler
  appends that one blob to what was sent to the session in the ref and changes nothing
  else, so nothing of the frame is kept in the panel; without a session the frame is
  dropped.
\<close>

theorem captured_frame_is_converted_and_sent:
  "length (pcm16 inputData) = length inputData \<and>
   (\<forall>i < length inputData.
      sint (pcm16 inputData ! i) =
        (truncated (inputData ! i * 32768) + 32768) mod 65536 - 32768 \<and>
      (- 1 \<le> inputData ! i \<and> inputData ! i < 1 \<longrightarrow>
         sint (pcm16 inputData ! i) = truncated (inputData ! i * 32768)) \<and>
      uint (buffer_bytes (pcm16 inputData) ! (2 * i)) =
        truncated (inputData ! i * 32768) mod 65536 mod 256 \<and>
      uint (buffer_bytes (pcm16 inputData) ! (2 * i + 1)) =
        truncated (inputData ! i * 32768) mod 65536 div 256) \<and>
   length (buffer_bytes (pcm16 inputData)) = 2 * length inputData \<and>
   data (pcmBlob encode inputData) = encode (buffer_bytes (pcm16 inputData)) \<and>
   mimeType (pcmBlob encode inputData) = ''audio/pcm;rate=16000'' \<and>
   (sessionPromiseRef st = Some s \<and> s < length (sessions st) \<longrightarrow>
      vc_onaudioprocess encode inputData st =
        st\<lparr>sessions := (sessions st)
              [s := (sessions st ! s)\<lparr>realtime_inputs :=
                      realtime_inputs (sessions st ! s) @ [pcmBlob encode inputData]\<rparr>]\<rparr>) \<and>
   (sessionPromiseRef st = None \<longrightarrow> vc_onaudioprocess encode inputData st = st) \<and>
   (va_sessionPromiseRef v = Some s' \<and> s' < length (sessions v) \<longrightarrow>
      va_onaudioprocess encode inputData v =
        v\<lparr>sessions := (sessions v)
             [s' := (sessions v ! s')\<lparr>realtime_inputs :=
                      realtime_inputs (sessions v ! s') @ [pcmBlob encode inputData]\<rparr>]\<rparr>) \<and>
   (va_sessionPromiseRef v = None \<longrightarrow> va_onaudioprocess encode inputData v = v)"
proof -
  have conv: "pcm16 inputData ! i = ToInt16 (inputData ! i * 32768)" if "i < length inputData" for i
    using that by (simp add: pcm16_def)
  have val: "sint (pcm16 inputData ! i) =
      (truncated (inputData ! i * 32768) + 32768) mod 65536 - 32768"
    if "i < length inputData" for i
    by (simp only: conv [OF that] sint_ToInt16)
  have rng: "sint (pcm16 inputData ! i) = truncated (inputData ! i * 32768)"
    if "i < length inputData" "- 1 \<le> inputData ! i" "inputData ! i < 1" for i
    using that ToInt16_in_range [of "inputData ! i"] by (simp only: conv)
  have each: "\<forall>i < length inputData.
      sint (pcm16 inputData ! i) =
        (truncated (inputData ! i * 32768) + 32768) mod 65536 - 32768 \<and>
      (- 1 \<le> inputData ! i \<and> inputData ! i < 1 \<longrightarrow>
         sint (pcm16 inputData ! i) = truncated (inputData ! i * 32768)) \<and>
      uint (buffer_bytes (pcm16 inputData) ! (2 * i)) =
        truncated (inputData ! i * 32768) mod 65536 mod 256 \<and>
      uint (buffer_bytes (pcm16 inputData) ! (2 * i + 1)) =
        truncated (inputData ! i * 32768) mod 65536 div 256"
    using val rng frame_bytes by blast
  have len: "length (pcm16 inputData) = length inputData"
    by (simp add: pcm16_def)
  have blen: "length (buffer_bytes (pcm16 inputData)) = 2 * length inputData"
    by (simp add: length_buffer_bytes pcm16_def)
  have blob: "data (pcmBlob encode inputData) = encode (buffer_bytes (pcm16 inputData))"
    "mimeType (pcmBlob encode inputData) = ''audio/pcm;rate=16000''"
    by (simp_all add: pcmBlob_def)
  have none: "sessionPromiseRef st = None \<longrightarrow> vc_onaudioprocess encode inputData st = st"
    "va_sessionPromiseRef v = None \<longrightarrow> va_onaudioprocess encode inputData v = v"
    by (simp_all add: vc_onaudioprocess_def va_onaudioprocess_def)
  show ?thesis
    using len each blen blob none vc_onaudioprocess_sends [of st s encode inputData]
      va_onaudioprocess_sends [of v s' encode inputData]
    by (intro conjI) blast+
qed

theorem captured_frame_is_converted_and_sent_witness:
  "map sint (pcm16 [1 / 2, - 1, - 1 / 3]) = [16384, - 32768, - 10922] \<and>
   map uint (buffer_bytes (pcm16 [1 / 2, - 1, - 1 / 3])) = [0, 64, 0, 128, 86, 213] \<and>
   sessionPromiseRef vc_playing = Some 0 \<and> va_sessionPromiseRef va_open = Some 0 \<and>
   map realtime_inputs (sessions (vc_onaudioprocess (\<lambda>_. ''AEAAgFbV'') [1 / 2, - 1, - 1 / 3] vc_playing)) =
     [ [\<lparr>data = ''AEAAgFbV'', mimeType = ''audio/pcm;rate=16000''\<rparr>] ] \<and>
   map realtime_inputs (sessions (va_onaudioprocess (\<lambda>_. ''AEAAgFbV'') [1 / 2, - 1, - 1 / 3] va_open)) =
     [ [\<lparr>data = ''AEAAgFbV'', mimeType = ''audio/pcm;rate=16000''\<rparr>] ]"
proof -
  let ?frame = "[1 / 2, - 1, - 1 / 3 :: real]"
  let ?enc = "\<lambda>_ :: 8 word list. ''AEAAgFbV''"
  note frame = captured_frame_is_converted_and_sent [of ?frame ?enc vc_playing 0 va_open 0]
  have refs: "sessionPromiseRef vc_playing = Some 0" "0 < length (sessions vc_playing)"
    "va_sessionPromiseRef va_open = Some 0" "0 < length (sessions va_open)"
    by (simp_all add: vc_playing_value va_open_value)
  have blob: "pcmBlob ?enc ?frame = \<lparr>data = ''AEAAgFbV'', mimeType = ''audio/pcm;rate=16000''\<rparr>"
    using frame by (intro media_blob.equality) simp_all
  have vc: "vc_onaudioprocess ?enc ?frame vc_playing =
      vc_playing\<lparr>sessions := (sessions vc_playing)
              [0 := (sessions vc_playing ! 0)\<lparr>realtime_inputs :=
                      realtime_inputs (sessions vc_playing ! 0) @ [pcmBlob ?enc ?frame]\<rparr>]\<rparr>"
    using frame refs by blast
  have va: "va_onaudioprocess ?enc ?frame va_open =
      va_open\<lparr>sessions := (sessions va_open)
              [0 := (sessions va_open ! 0)\<lparr>realtime_inputs :=
                      realtime_inputs (sessions va_open ! 0) @ [pcmBlob ?enc ?frame]\<rparr>]\<rparr>"
    using frame refs by blast
  have vals: "map sint (pcm16 ?frame) = [16384, - 32768, - 10922]"
    by (simp add: pcm16_def sint_ToInt16 truncated_def)
  have bytes: "map uint (buffer_bytes (pcm16 ?frame)) = [0, 64, 0, 128, 86, 213]"
    by (simp add: pcm16_def buffer_bytes_def low_byte high_byte uint_ToInt16 truncated_def)
  have "map realtime_inputs (sessions (vc_onaudioprocess ?enc ?frame vc_playing)) =
      [ [\<lparr>data = ''AEAAgFbV'', mimeType = ''audio/pcm;rate=16000''\<rparr>] ]"
    unfolding vc blob by (simp add: vc_playing_value)
  moreover have "map realtime_inputs (sessions (va_onaudioprocess ?enc ?frame va_open)) =
      [ [\<lparr>data = ''AEAAgFbV'', mimeType = ''audio/pcm;rate=16000''\<rparr>] ]"
    unfolding va blob by (simp add: va_open_value)
  ultimately show ?thesis using vals bytes refs by simp
qed

text \<open>
  C8 as stated fails: \<open>x * 32768\<close> need not be an integer, and it need not fit into 16
  bits. The sample \<open>1 / 3\<close> becomes 10922, and the sample 1, for which \<open>x * 32768\<close> is
  32768, becomes -32768.
\<close>

theorem full_scale_sample_wraps:
  "truncated (1 * 32768) = 32768 \<and> map sint (pcm16 [1, 1 / 3]) = [- 32768, 10922]"
  by (simp add: pcm16_def sint_ToInt16 truncated_def)

section \<open>Inbound messages of the visual assistant\<close>

lemma va_deliver_id: "va_deliver msgs v = v"
  by (induction msgs) (simp_all add: va_onmessage_def)

text \<open>
  C10. In the visual assistant an inbound message changes nothing: the handler returns the
  state it was given, so no node is created or scheduled, whatever the messages carry.
  The timer that \<open>onopen\<close> installs with a period of 1000 ms stays active through any
  number of messages, and a timer callback that gets a snapshot still sends it to the
  session as \<open>image/jpeg\<close>.
\<close>

theorem visual_assistant_ignores_inbound_messages:
  "va_onmessage msg v = v \<and>
   va_deliver msgs v = v \<and>
   sources (va_deliver msgs v) = sources v \<and>
   (va_streamRef v \<noteq> None \<longrightarrow>
      snd (va_onopen v) = None \<and>
      va_intervalRef (va_deliver msgs (fst (va_onopen v))) = Some (length (intervals v)) \<and>
      intervals (va_deliver msgs (fst (va_onopen v))) =
        intervals v @ [\<lparr>active = True, period_ms = 1000\<rparr>]) \<and>
   (va_sessionPromiseRef v = Some s \<and> s < length (sessions v) \<longrightarrow>
      va_frame (Some base64Data) (va_deliver msgs v) =
        v\<lparr>sessions := (sessions v)
             [s := (sessions v ! s)\<lparr>realtime_inputs := realtime_inputs (sessions v ! s) @
                     [\<lparr>data = base64Data, mimeType = ''image/jpeg''\<rparr>]\<rparr>]\<rparr>)"
  by (auto simp: va_deliver_id va_onmessage_def va_onopen_def Let_def va_frame_def
      sendRealtimeInput_def modify_def)

theorem visual_assistant_ignores_inbound_messages_witness:
  "va_streamRef (startSession None None va_initial) \<noteq> None \<and>
   va_sessionPromiseRef va_open = Some 0 \<and>
   intervals (va_deliver [audio_message, no_content] va_open) = [\<lparr>active = True, period_ms = 1000\<rparr>] \<and>
   sources (va_deliver [audio_message, no_content] va_open) = [] \<and>
   map realtime_inputs (sessions (va_frame (Some ''/9j/'') (va_deliver [audio_message, no_content] va_open))) =
     [ [\<lparr>data = ''/9j/'', mimeType = ''image/jpeg''\<rparr>] ]"
proof -
  let ?v0 = "startSession None None va_initial"
  let ?msgs = "[audio_message, no_content]"
  have a: "va_streamRef ?v0 \<noteq> None"
    by (simp add: startSession_def startSession_begin_def startSession_resume_def va_initial_def
        Let_def)
  have b: "va_sessionPromiseRef va_open = Some 0" "0 < length (sessions va_open)"
    by (simp_all add: va_open_value)
  have iv: "intervals ?v0 = []"
    by (simp add: startSession_def startSession_begin_def startSession_resume_def va_initial_def
        Let_def)
  have "intervals (va_deliver ?msgs (fst (va_onopen ?v0))) =
        intervals ?v0 @ [\<lparr>active = True, period_ms = 1000\<rparr>]"
    using visual_assistant_ignores_inbound_messages [of _ ?v0 ?msgs] a by blast
  then have c: "intervals (va_deliver ?msgs va_open) = [\<lparr>active = True, period_ms = 1000\<rparr>]"
    by (simp add: va_open_def iv)
  have "sources (va_deliver ?msgs va_open) = sources va_open"
    using visual_assistant_ignores_inbound_messages [of _ va_open ?msgs] by blast
  then have d: "sources (va_deliver ?msgs va_open) = []"
    by (simp add: va_open_value)
  have "va_frame (Some ''/9j/'') (va_deliver ?msgs va_open) =
        va_open\<lparr>sessions := (sessions va_open)
             [0 := (sessions va_open ! 0)\<lparr>realtime_inputs := realtime_inputs (sessions va_open ! 0) @
                     [\<lparr>data = ''/9j/'', mimeType = ''image/jpeg''\<rparr>]\<rparr>]\<rparr>"
    using visual_assistant_ignores_inbound_messages [of _ va_open ?msgs 0 "''/9j/''"] b by blast
  then have e: "map realtime_inputs (sessions (va_frame (Some ''/9j/'') (va_deliver ?msgs va_open))) =
     [ [\<lparr>data = ''/9j/'', mimeType = ''image/jpeg''\<rparr>] ]"
    by (simp add: va_open_value)
  show ?thesis using a b(1) c d e by simp
qed

section \<open>Errors and teardown\<close>

lemma vc_onerror_torn_down:
  assumes "sources_started st" and "pending_tracked st"
  shows "snd (vc_onerror type st) = None \<and>
         torn_down st (fst (vc_onerror type st)) \<and>
         error (fst (vc_onerror type st)) = Some (''Live session error: '' @ type)"
proof -
  let ?st = "st\<lparr>error := Some (''Live session error: '' @ type)\<rparr>"
  have inv: "sources_started ?st" "pending_tracked ?st"
    using assms by (simp_all add: sources_started_def pending_tracked_def)
  have "torn_down ?st (fst (stopConversation ?st)) = torn_down st (fst (stopConversation ?st))"
    by (rule torn_down_cong) simp_all
  then show ?thesis
    using stopConversation_torn_down [OF inv] stopConversation_no_exception [OF inv(1)]
    by (simp add: vc_onerror_def)
qed

lemma vc_onclose_torn_down:
  assumes "sources_started st" and "pending_tracked st"
  shows "snd (vc_onclose st) = None \<and>
         torn_down st (fst (vc_onclose st)) \<and>
         error (fst (vc_onclose st)) = error st"
  using stopConversation_torn_down [OF assms] stopConversation_no_exception [OF assms(1)]
  by (simp add: vc_onclose_def)

lemma vc_onopen_denied: "vc_onopen (Some msg) st = (st, Some (DeviceError msg))"
  by (simp add: vc_onopen_def)

text \<open>
  C5, amended. A remote error event ends in \<open>stopConversation\<close>: the handler raises
  nothing, the voice chat is torn down (idle, everything referenced released, nothing
  pending, no session referenced and none created, so nothing is retried), and the error
  message is the one message \<open>Live session error: \<close> followed by the event type. A remote
  close ends in the same teardown and leaves the error message as it was.
\<close>

theorem remote_error_tears_down_and_close_adds_no_message:
  assumes "sources_started st" and "pending_tracked st"
  shows "snd (vc_onerror type st) = None \<and>
         torn_down st (fst (vc_onerror type st)) \<and>
         error (fst (vc_onerror type st)) = Some (''Live session error: '' @ type) \<and>
         snd (vc_onclose st) = None \<and>
         torn_down st (fst (vc_onclose st)) \<and>
         error (fst (vc_onclose st)) = error st"
  using vc_onerror_torn_down [OF assms, of type] vc_onclose_torn_down [OF assms]
  by simp

theorem remote_error_tears_down_and_close_adds_no_message_witness:
  "sources_started vc_playing \<and> pending_tracked vc_playing \<and> isLive vc_playing \<and>
   error vc_playing = None \<and>
   \<not> isLive (fst (vc_onerror ''error'' vc_playing)) \<and>
   error (fst (vc_onerror ''error'' vc_playing)) = Some ''Live session error: error'' \<and>
   \<not> isLive (fst (vc_onclose vc_playing)) \<and>
   error (fst (vc_onclose vc_playing)) = None"
proof -
  have inv: "sources_started vc_playing" "pending_tracked vc_playing"
    using vc_playing_invariants by simp_all
  have live: "isLive vc_playing" "error vc_playing = None"
    by (simp_all add: vc_playing_value)
  from remote_error_tears_down_and_close_adds_no_message [OF inv, of "''error''"] inv live
  show ?thesis
    by (simp add: torn_down_def)
qed

text \<open>
  C5 as stated fails for the close: a remote close of a live session that shows no error
  leaves the panel without an error message.
\<close>

theorem remote_close_surfaces_no_message:
  "isLive vc_started \<and> error vc_started = None \<and> error (fst (vc_onclose vc_started)) = None"
  using stopConversation_frame [of vc_started]
  by (simp add: vc_onclose_def) (simp add: vc_started_value)

lemma startConversation_thrown_torn_down:
  assumes "sources_started st" and "pending_tracked st" and "\<not> isLive st"
  shows "snd (startConversation (Some msg) st) = None \<and>
         torn_down st (fst (startConversation (Some msg) st)) \<and>
         error (fst (startConversation (Some msg) st)) = Some msg"
proof -
  let ?st = "st\<lparr>isLive := True, error := None, transcriptions := [],
      currentInputTranscription := [], currentOutputTranscription := [], error := Some msg\<rparr>"
  have inv: "sources_started ?st" "pending_tracked ?st"
    using assms by (simp_all add: sources_started_def pending_tracked_def)
  have "torn_down ?st (fst (stopConversation ?st)) = torn_down st (fst (stopConversation ?st))"
    by (rule torn_down_cong) simp_all
  then show ?thesis
    using stopConversation_torn_down [OF inv] stopConversation_no_exception [OF inv(1)] assms(3)
    by (simp add: startConversation_def Let_def)
qed

lemma va_onerror_torn_down:
  "va_torn_down v (va_onerror type v) \<and> va_error (va_onerror type v) = Some type"
proof -
  have "va_torn_down (v\<lparr>va_error := Some type\<rparr>) (stopSession (v\<lparr>va_error := Some type\<rparr>)) =
      va_torn_down v (stopSession (v\<lparr>va_error := Some type\<rparr>))"
    by (rule va_torn_down_cong) simp_all
  then show ?thesis
    using stopSession_torn_down [of "v\<lparr>va_error := Some type\<rparr>"] by (simp add: va_onerror_def)
qed

lemma startSession_denied_torn_down:
  "va_torn_down v (startSession (Some msg) thrown v) \<and>
   va_error (startSession (Some msg) thrown v) = Some msg \<and>
   length (streams (startSession (Some msg) thrown v)) = length (streams v)"
proof -
  let ?v = "v\<lparr>va_isLive := True, va_error := None, va_pending := Suc (va_pending v),
      va_pending := Suc (va_pending v) - 1, va_error := Some msg\<rparr>"
  have "va_torn_down ?v (stopSession ?v) = va_torn_down v (stopSession ?v)"
    by (rule va_torn_down_cong) simp_all
  moreover have "length (streams (stopSession ?v)) = length (streams v)"
    by (simp add: stopSession_unfold tracks_stop_def split: option.splits)
  ultimately show ?thesis
    using stopSession_torn_down [of ?v]
    by (simp add: startSession_def startSession_begin_def startSession_resume_def Let_def)
qed

lemma startSession_thrown_releases:
  "\<not> va_isLive (startSession None (Some msg) v) \<and>
   va_error (startSession None (Some msg) v) = Some msg \<and>
   \<not> holds_live_stream (va_streamRef (startSession None (Some msg) v))
       (streams (startSession None (Some msg) v))"
  using stopSession_torn_down
    [of "v\<lparr>va_isLive := True, va_error := None, va_pending := Suc (va_pending v),
           va_pending := Suc (va_pending v) - 1, streams := streams v @ [True],
           va_streamRef := Some (length (streams v)), va_error := Some msg\<rparr>"]
  by (simp add: startSession_def startSession_begin_def startSession_resume_def Let_def
      va_torn_down_def)

lemma message_without_audio:
  assumes "modelTurn m \<noteq> Some NoParts" and "payload m = []" and "\<not> interrupted m"
  shows "snd (vc_onmessage d now m st) = None \<and>
         isLive (fst (vc_onmessage d now m st)) = isLive st \<and>
         error (fst (vc_onmessage d now m st)) = error st \<and>
         sessionPromiseRef (fst (vc_onmessage d now m st)) = sessionPromiseRef st \<and>
         streamRef (fst (vc_onmessage d now m st)) = streamRef st \<and>
         sessions (fst (vc_onmessage d now m st)) = sessions st \<and>
         streams (fst (vc_onmessage d now m st)) = streams st \<and>
         contexts (fst (vc_onmessage d now m st)) = contexts st \<and>
         sources (fst (vc_onmessage d now m st)) = sources st \<and>
         playingSources (fst (vc_onmessage d now m st)) = playingSources st"
proof -
  have "vc_onmessage_content d now m st = (vc_onmessage_transcript m st, None)"
    using assms(1,2)
    by (auto simp: vc_onmessage_content_def base64Audio_def payload_def
        split: option.splits model_turn.splits)
  then have "vc_onmessage d now m st = (vc_onmessage_transcript m st, None)"
    using assms(3) by (simp add: vc_onmessage_def)
  then show ?thesis by (simp add: transcript_unfold)
qed

lemma message_with_partless_turn:
  assumes "modelTurn m = Some NoParts"
  shows "snd (vc_onmessage d now m st) = Some TypeError \<and>
         isLive (fst (vc_onmessage d now m st)) = isLive st \<and>
         error (fst (vc_onmessage d now m st)) = error st \<and>
         sessionPromiseRef (fst (vc_onmessage d now m st)) = sessionPromiseRef st \<and>
         streamRef (fst (vc_onmessage d now m st)) = streamRef st \<and>
         sessions (fst (vc_onmessage d now m st)) = sessions st \<and>
         streams (fst (vc_onmessage d now m st)) = streams st \<and>
         contexts (fst (vc_onmessage d now m st)) = contexts st \<and>
         sources (fst (vc_onmessage d now m st)) = sources st \<and>
         playingSources (fst (vc_onmessage d now m st)) = playingSources st"
  by (simp add: onmessage_no_parts [OF assms] transcript_unfold)

text \<open>
  C4, amended. The error classes are not handled alike. A remote error event, in either
  panel, and an exception while a session is started (in either panel; in the visual
  assistant this includes the rejection of \<open>getUserMedia\<close>) end in the panel's stop
  function with exactly one error message set: the panel is torn down, and a stream
  obtained by the failed start is stopped. A remote close ends in the same teardown and
  leaves the error message as it was. An inbound message of the voice chat without an
  audio payload is no error: apart from the transcript it changes nothing, the session
  stays as it is and the error message as it was. That also holds when the message
  carries a model turn without parts, except that the handler then ends with \<open>TypeError\<close>.
\<close>

theorem error_classes_end_in_teardown:
  assumes "sources_started st" and "pending_tracked st"
  shows "torn_down st (fst (vc_onerror type st)) \<and>
         error (fst (vc_onerror type st)) = Some (''Live session error: '' @ type) \<and>
         va_torn_down v (va_onerror type v) \<and>
         va_error (va_onerror type v) = Some type \<and>
         (\<not> isLive st \<longrightarrow>
            torn_down st (fst (startConversation (Some msg) st)) \<and>
            error (fst (startConversation (Some msg) st)) = Some msg) \<and>
         va_torn_down v (startSession (Some msg) thrown v) \<and>
         va_error (startSession (Some msg) thrown v) = Some msg \<and>
         length (streams (startSession (Some msg) thrown v)) = length (streams v) \<and>
         \<not> va_isLive (startSession None (Some msg) v) \<and>
         va_error (startSession None (Some msg) v) = Some msg \<and>
         \<not> holds_live_stream (va_streamRef (startSession None (Some msg) v))
             (streams (startSession None (Some msg) v)) \<and>
         torn_down st (fst (vc_onclose st)) \<and>
         error (fst (vc_onclose st)) = error st \<and>
         va_torn_down v (va_onclose v) \<and>
         va_error (va_onclose v) = va_error v \<and>
         (modelTurn m \<noteq> Some NoParts \<and> payload m = [] \<and> \<not> interrupted m \<longrightarrow>
            snd (vc_onmessage d now m st) = None \<and>
            isLive (fst (vc_onmessage d now m st)) = isLive st \<and>
            error (fst (vc_onmessage d now m st)) = error st \<and>
            sessionPromiseRef (fst (vc_onmessage d now m st)) = sessionPromiseRef st \<and>
            streamRef (fst (vc_onmessage d now m st)) = streamRef st \<and>
            sessions (fst (vc_onmessage d now m st)) = sessions st \<and>
            streams (fst (vc_onmessage d now m st)) = streams st \<and>
            contexts (fst (vc_onmessage d now m st)) = contexts st \<and>
            sources (fst (vc_onmessage d now m st)) = sources st \<and>
            playingSources (fst (vc_onmessage d now m st)) = playingSources st) \<and>
         (modelTurn m = Some NoParts \<longrightarrow>
            snd (vc_onmessage d now m st) = Some TypeError \<and>
            isLive (fst (vc_onmessage d now m st)) = isLive st \<and>
            error (fst (vc_onmessage d now m st)) = error st \<and>
            sessionPromiseRef (fst (vc_onmessage d now m st)) = sessionPromiseRef st \<and>
            streamRef (fst (vc_onmessage d now m st)) = streamRef st \<and>
            sessions (fst (vc_onmessage d now m st)) = sessions st \<and>
            streams (fst (vc_onmessage d now m st)) = streams st \<and>
            contexts (fst (vc_onmessage d now m st)) = contexts st \<and>
            sources (fst (vc_onmessage d now m st)) = sources st \<and>
            playingSources (fst (vc_onmessage d now m st)) = playingSources st)"
proof -
  have close: "va_torn_down v (va_onclose v) \<and> va_error (va_onclose v) = va_error v"
    using stopSession_torn_down [of v] by (simp add: va_onclose_def)
  have start: "\<not> isLive st \<longrightarrow>
            torn_down st (fst (startConversation (Some msg) st)) \<and>
            error (fst (startConversation (Some msg) st)) = Some msg"
    using startConversation_thrown_torn_down [OF assms] by simp
  show ?thesis
    using vc_onerror_torn_down [OF assms, of type] vc_onclose_torn_down [OF assms]
      va_onerror_torn_down [of v type] startSession_denied_torn_down [of v msg thrown]
      startSession_thrown_releases [of msg v] close start
      message_without_audio [of m d now st] message_with_partless_turn [of m d now st]
    by (intro conjI impI) simp_all
qed

theorem error_classes_end_in_teardown_witness:
  "sources_started vc_playing \<and> pending_tracked vc_playing \<and>
   sources_started vc_initial \<and> pending_tracked vc_initial \<and>
   isLive vc_playing \<and> va_isLive va_open \<and> \<not> isLive vc_initial \<and>
   modelTurn no_content \<noteq> Some NoParts \<and> payload no_content = [] \<and>
   \<not> interrupted no_content \<and>
   \<not> isLive (fst (vc_onerror ''error'' vc_playing)) \<and>
   error (fst (vc_onerror ''error'' vc_playing)) = Some ''Live session error: error'' \<and>
   \<not> va_isLive (va_onerror ''error'' va_open) \<and>
   va_error (va_onerror ''error'' va_open) = Some ''error'' \<and>
   error (fst (startConversation (Some ''no key'') vc_initial)) = Some ''no key'' \<and>
   va_error (startSession (Some ''denied'') None va_open) = Some ''denied'' \<and>
   \<not> isLive (fst (vc_onclose vc_playing)) \<and>
   error (fst (vc_onclose vc_playing)) = None \<and>
   isLive (fst (vc_onmessage (\<lambda>_. 1) 2 no_content vc_playing)) \<and>
   error (fst (vc_onmessage (\<lambda>_. 1) 2 no_content vc_playing)) = None"
proof -
  have inv: "sources_started vc_playing" "pending_tracked vc_playing"
    using vc_playing_invariants by simp_all
  have inv': "sources_started vc_initial" "pending_tracked vc_initial"
    by (simp_all add: vc_initial_def sources_started_def pending_tracked_def)
  have facts: "isLive vc_playing" "va_isLive va_open" "\<not> isLive vc_initial"
    "modelTurn no_content \<noteq> Some NoParts" "payload no_content = []"
    "\<not> interrupted no_content" "error vc_playing = None"
    by (simp_all add: vc_playing_value va_open_value vc_initial_def no_content_def payload_def
        base64Audio_def)
  note playing = error_classes_end_in_teardown
    [OF inv, of "''error''" va_open "''denied''" None no_content "\<lambda>_. 1" 2]
  note finished = error_classes_end_in_teardown
    [OF inv', of "''error''" va_open "''no key''" None no_content "\<lambda>_. 1" 2]
  have a: "\<not> isLive (fst (vc_onerror ''error'' vc_playing))"
    "error (fst (vc_onerror ''error'' vc_playing)) = Some ''Live session error: error''"
    "\<not> va_isLive (va_onerror ''error'' va_open)"
    "va_error (va_onerror ''error'' va_open) = Some ''error''"
    "va_error (startSession (Some ''denied'') None va_open) = Some ''denied''"
    "\<not> isLive (fst (vc_onclose vc_playing))"
    "error (fst (vc_onclose vc_playing)) = None"
    "isLive (fst (vc_onmessage (\<lambda>_. 1) 2 no_content vc_playing))"
    "error (fst (vc_onmessage (\<lambda>_. 1) 2 no_content vc_playing)) = None"
    using playing facts by (simp_all add: torn_down_def va_torn_down_def)
  have b: "error (fst (startConversation (Some ''no key'') vc_initial)) = Some ''no key''"
    using finished facts(3) by blast
  show ?thesis
    using inv inv' facts a b by (intro conjI)
qed

text \<open>
  C4 as stated fails: a remote close of a live session leaves no error message in either
  panel, and an inbound message without audio neither stops the session nor sets one.
\<close>

theorem close_and_missing_audio_set_no_message:
  "error (fst (vc_onclose vc_playing)) = None \<and>
   va_error (va_onclose va_open) = None \<and>
   isLive (fst (vc_onmessage (\<lambda>_. 1) 2 no_content vc_playing)) \<and>
   error (fst (vc_onmessage (\<lambda>_. 1) 2 no_content vc_playing)) = None"
proof -
  have m: "modelTurn no_content \<noteq> Some NoParts" "payload no_content = []"
    "\<not> interrupted no_content"
    by (simp_all add: no_content_def payload_def base64Audio_def)
  have "error (fst (vc_onclose vc_playing)) = error vc_playing"
    using stopConversation_frame [of vc_playing] by (simp add: vc_onclose_def)
  moreover have "va_error (va_onclose va_open) = va_error va_open"
    using stopSession_frame [of va_open] by (simp add: va_onclose_def)
  ultimately show ?thesis
    using message_without_audio [OF m, of "\<lambda>_. 1" 2 vc_playing]
    by (simp add: vc_playing_value va_open_value)
qed

end
